theory Spec2Isabelle
  imports Complex_Main
begin

section \<open>Product catalog service (main.py)\<close>

text \<open>
  A shallow embedding of the request handlers of \<^verbatim>\<open>main.py\<close>: the two pydantic models,
  the mapping from a stored document to the API output, and the four product routes.
  The document store is an explicit state; exceptions are values of a sum type.
\<close>

subsection \<open>Python values\<close>

text \<open>
  An \<^verbatim>\<open>ObjectId\<close> is represented by the lower-case hexadecimal digits that
  \<^verbatim>\<open>str()\<close> prints for its bytes: 24 digits for the 12 bytes of an identifier that the
  driver generates.
\<close>

datatype ObjectId = ObjectId string

text \<open>
  The values a JSON body or a stored document can hold. A Python float is represented by
  the real number it denotes: the program does no float arithmetic, it only converts and
  compares against the bounds 0 and 5; the non-finite floats are outside the model. A
  Python int is unbounded. \<open>POther t s\<close> is any other value
  (an array, an embedded document, a date), of which the program can only observe the truth
  value \<open>t\<close> and the text \<open>s\<close> that \<^verbatim>\<open>str()\<close> gives; byte strings are not
  modelled.
\<close>

datatype pyval =
    PNone
  | PBool bool
  | PInt int
  | PFloat real
  | PStr string
  | POid ObjectId
  | POther bool string

text \<open>A dict keeps its keys in insertion order; the first binding of a key is the one read.\<close>

type_synonym document = "(string \<times> pyval) list"

datatype exc =
    HTTPException nat string
  | ValidationError "string list"
  | TypeError
  | ValueError
  | OverflowError
  | InvalidId
  | PyMongoError string

text \<open>
  Library behaviour the handlers depend on but which is fixed outside this program is a
  parameter: how \<^verbatim>\<open>float()\<close> reads a string (\<open>None\<close> when it raises
  \<^verbatim>\<open>ValueError\<close>), how a float is printed, and which values of another type pydantic
  coerces to a float or to a bool in its default (lax) mode.
\<close>

record pylib =
  float_of_str :: "string \<Rightarrow> real option"
  repr_float :: "real \<Rightarrow> string"
  lax_float :: "pyval \<Rightarrow> real option"
  lax_bool :: "pyval \<Rightarrow> bool option"

definition dict_get :: "document \<Rightarrow> string \<Rightarrow> pyval" where
  "dict_get d k = (case map_of d k of None \<Rightarrow> PNone | Some v \<Rightarrow> v)"

definition dict_get_default :: "document \<Rightarrow> string \<Rightarrow> pyval \<Rightarrow> pyval" where
  "dict_get_default d k dflt = (case map_of d k of None \<Rightarrow> dflt | Some v \<Rightarrow> v)"

definition digit_char :: "nat \<Rightarrow> char" where
  "digit_char n = ''0123456789'' ! (n mod 10)"

fun str_of_nat :: "nat \<Rightarrow> string" where
  "str_of_nat n = (if n < 10 then [digit_char n] else str_of_nat (n div 10) @ [digit_char n])"

declare str_of_nat.simps [simp del]

definition str_of_int :: "int \<Rightarrow> string" where
  "str_of_int i = (if i < 0 then CHR ''-'' # str_of_nat (nat (- i)) else str_of_nat (nat i))"

fun py_str :: "pylib \<Rightarrow> pyval \<Rightarrow> string" where
  "py_str P PNone = ''None''"
| "py_str P (PBool b) = (if b then ''True'' else ''False'')"
| "py_str P (PInt i) = str_of_int i"
| "py_str P (PFloat f) = repr_float P f"
| "py_str P (PStr s) = s"
| "py_str P (POid (ObjectId h)) = h"
| "py_str P (POther t s) = s"

fun py_bool :: "pyval \<Rightarrow> bool" where
  "py_bool PNone = False"
| "py_bool (PBool b) = b"
| "py_bool (PInt i) = (i \<noteq> 0)"
| "py_bool (PFloat f) = (f \<noteq> 0)"
| "py_bool (PStr s) = (s \<noteq> [])"
| "py_bool (POid oid) = True"
| "py_bool (POther t s) = t"

text \<open>
  The conversion of an int to a float (a double): the int is rounded to 53 significant
  bits, a tie going to the even neighbour, and an int whose rounded value does not fit a
  double has no float (\<^verbatim>\<open>float()\<close> raises \<^verbatim>\<open>OverflowError\<close>).
\<close>

fun bit_length :: "nat \<Rightarrow> nat" where
  "bit_length n = (if n = 0 then 0 else Suc (bit_length (n div 2)))"

declare bit_length.simps [simp del]

definition float_of_int :: "int \<Rightarrow> real option" where
  "float_of_int i =
     (let m = nat \<bar>i\<bar>;
          e = bit_length m - 53;
          q = m div 2 ^ e;
          r = m mod 2 ^ e;
          q' = (if 2 ^ e < 2 * r \<or> (2 * r = 2 ^ e \<and> odd q) then Suc q else q);
          v = q' * 2 ^ e
      in if 2 ^ 1024 \<le> v then None
         else Some (if i < 0 then - real v else real v))"

fun py_float :: "pylib \<Rightarrow> pyval \<Rightarrow> exc + real" where
  "py_float P PNone = Inl TypeError"
| "py_float P (PBool b) = Inr (if b then 1 else 0)"
| "py_float P (PInt i) =
     (case float_of_int i of None \<Rightarrow> Inl OverflowError | Some f \<Rightarrow> Inr f)"
| "py_float P (PFloat f) = Inr f"
| "py_float P (PStr s) = (case float_of_str P s of None \<Rightarrow> Inl ValueError | Some f \<Rightarrow> Inr f)"
| "py_float P (POid oid) = Inl TypeError"
| "py_float P (POther t s) = Inl TypeError"

subsection \<open>Models: ProductCreate and ProductOut\<close>

record ProductCreate =
  title :: string
  description :: "string option"
  price :: real
  category :: string
  in_stock :: bool
  image_url :: "string option"
  rating :: "real option"

record ProductOut = ProductCreate +
  id' :: string

text \<open>Field validators of pydantic, for the annotations the two classes use.\<close>

fun val_str :: "pyval \<Rightarrow> string option" where
  "val_str (PStr s) = Some s"
| "val_str v = None"

fun val_float :: "pylib \<Rightarrow> pyval \<Rightarrow> real option" where
  "val_float P (PFloat f) = Some f"
| "val_float P (PInt i) = float_of_int i"
| "val_float P (PBool b) = lax_float P (PBool b)"
| "val_float P (PStr s) = lax_float P (PStr s)"
| "val_float P v = None"

fun val_bool :: "pylib \<Rightarrow> pyval \<Rightarrow> bool option" where
  "val_bool P (PBool b) = Some b"
| "val_bool P (PInt i) = lax_bool P (PInt i)"
| "val_bool P (PFloat f) = lax_bool P (PFloat f)"
| "val_bool P (PStr s) = lax_bool P (PStr s)"
| "val_bool P v = None"

text \<open>\<^verbatim>\<open>Optional[T]\<close>: \<^verbatim>\<open>None\<close> is accepted, any other value is validated as a \<^verbatim>\<open>T\<close>.\<close>

definition val_optional :: "(pyval \<Rightarrow> 'a option) \<Rightarrow> pyval \<Rightarrow> 'a option option" where
  "val_optional f v = (if v = PNone then Some None else map_option Some (f v))"

text \<open>\<^verbatim>\<open>Field(..., ge=lo)\<close> and \<^verbatim>\<open>Field(..., ge=lo, le=hi)\<close> on a float.\<close>

definition val_float_ge :: "pylib \<Rightarrow> real \<Rightarrow> pyval \<Rightarrow> real option" where
  "val_float_ge P lo v =
     (case val_float P v of None \<Rightarrow> None | Some f \<Rightarrow> if lo \<le> f then Some f else None)"

definition val_float_ge_le :: "pylib \<Rightarrow> real \<Rightarrow> real \<Rightarrow> pyval \<Rightarrow> real option" where
  "val_float_ge_le P lo hi v =
     (case val_float P v of None \<Rightarrow> None
      | Some f \<Rightarrow> if lo \<le> f \<and> f \<le> hi then Some f else None)"

text \<open>A field without a default is required; a default is used, unvalidated, for an absent key.\<close>

definition required :: "(pyval \<Rightarrow> 'a option) \<Rightarrow> pyval option \<Rightarrow> 'a option" where
  "required f v = (case v of None \<Rightarrow> None | Some x \<Rightarrow> f x)"

definition with_default :: "'a \<Rightarrow> (pyval \<Rightarrow> 'a option) \<Rightarrow> pyval option \<Rightarrow> 'a option" where
  "with_default dflt f v = (case v of None \<Rightarrow> Some dflt | Some x \<Rightarrow> f x)"

definition field_error :: "string \<Rightarrow> 'a option \<Rightarrow> string list" where
  "field_error name r = (case r of None \<Rightarrow> [name] | Some x \<Rightarrow> [])"

definition f_title :: "document \<Rightarrow> string option" where
  "f_title d = required val_str (map_of d ''title'')"

definition f_description :: "document \<Rightarrow> string option option" where
  "f_description d = with_default None (val_optional val_str) (map_of d ''description'')"

definition f_price :: "pylib \<Rightarrow> document \<Rightarrow> real option" where
  "f_price P d = required (val_float_ge P 0) (map_of d ''price'')"

definition f_category :: "document \<Rightarrow> string option" where
  "f_category d = required val_str (map_of d ''category'')"

definition f_in_stock :: "pylib \<Rightarrow> document \<Rightarrow> bool option" where
  "f_in_stock P d = with_default True (val_bool P) (map_of d ''in_stock'')"

definition f_image_url :: "document \<Rightarrow> string option option" where
  "f_image_url d = with_default None (val_optional val_str) (map_of d ''image_url'')"

definition f_rating :: "pylib \<Rightarrow> document \<Rightarrow> real option option" where
  "f_rating P d =
     with_default (Some 4.5) (val_optional (val_float_ge_le P 0 5)) (map_of d ''rating'')"

definition f_id :: "document \<Rightarrow> string option" where
  "f_id d = required val_str (map_of d ''id'')"

definition ProductCreate_errors :: "pylib \<Rightarrow> document \<Rightarrow> string list" where
  "ProductCreate_errors P d =
     field_error ''title'' (f_title d) @
     field_error ''description'' (f_description d) @
     field_error ''price'' (f_price P d) @
     field_error ''category'' (f_category d) @
     field_error ''in_stock'' (f_in_stock P d) @
     field_error ''image_url'' (f_image_url d) @
     field_error ''rating'' (f_rating P d)"

text \<open>
  Validation of a dict against \<^verbatim>\<open>ProductCreate\<close> (lines 23-30): every field is
  validated, and the error names all the fields that failed. Keys the class does not
  declare are ignored.
\<close>

definition ProductCreate_validate :: "pylib \<Rightarrow> document \<Rightarrow> exc + ProductCreate" where
  "ProductCreate_validate P d =
     (case (f_title d, f_description d, f_price P d, f_category d,
            f_in_stock P d, f_image_url d, f_rating P d) of
        (Some t, Some de, Some p, Some c, Some s, Some i, Some r) \<Rightarrow>
          Inr \<lparr>title = t, description = de, price = p, category = c,
               in_stock = s, image_url = i, rating = r\<rparr>
      | _ \<Rightarrow> Inl (ValidationError (ProductCreate_errors P d)))"

text \<open>\<^verbatim>\<open>ProductOut\<close> (lines 32-33) inherits the seven fields and adds a required \<^verbatim>\<open>id: str\<close>.\<close>

definition ProductOut_validate :: "pylib \<Rightarrow> document \<Rightarrow> exc + ProductOut" where
  "ProductOut_validate P d =
     (case (ProductCreate_validate P d, f_id d) of
        (Inr pc, Some i) \<Rightarrow> Inr (ProductCreate.extend pc (ProductOut.fields i))
      | _ \<Rightarrow> Inl (ValidationError (ProductCreate_errors P d @ field_error ''id'' (f_id d))))"

subsection \<open>Helpers\<close>

definition opt_float :: "real option \<Rightarrow> pyval" where
  "opt_float r = (case r of None \<Rightarrow> PNone | Some f \<Rightarrow> PFloat f)"

text \<open>
  \<^verbatim>\<open>product_doc_to_out\<close> (lines 51-61). The keyword arguments are evaluated in order, so a
  \<^verbatim>\<open>float()\<close> that raises does so before the model is validated.
\<close>

definition product_doc_to_out :: "pylib \<Rightarrow> document \<Rightarrow> exc + ProductOut" where
  "product_doc_to_out P doc =
     (case py_float P (dict_get_default doc ''price'' (PInt 0)) of
        Inl e \<Rightarrow> Inl e
      | Inr p \<Rightarrow>
         (case (if dict_get doc ''rating'' \<noteq> PNone
                then map_sum (\<lambda>e. e) Some (py_float P (dict_get_default doc ''rating'' (PInt 0)))
                else Inr None) of
            Inl e \<Rightarrow> Inl e
          | Inr r \<Rightarrow>
              ProductOut_validate P
                [(''id'', PStr (py_str P (dict_get doc ''_id''))),
                 (''title'', dict_get doc ''title''),
                 (''description'', dict_get doc ''description''),
                 (''price'', PFloat p),
                 (''category'', dict_get doc ''category''),
                 (''in_stock'', PBool (py_bool (dict_get_default doc ''in_stock'' (PBool True)))),
                 (''image_url'', dict_get doc ''image_url''),
                 (''rating'', opt_float r)]))"

subsection \<open>The document store\<close>

text \<open>
  The \<^verbatim>\<open>product\<close> collection, the only one the handlers use: its documents in insertion
  order, the identifiers the driver generates for inserted documents (the \<open>n\<close>-th one it
  issues is \<open>oid_supply n\<close>), and the failure, if any, that the driver raises when it is
  called (a lost connection, say).
\<close>

record store =
  docs :: "document list"
  oid_supply :: "nat \<Rightarrow> ObjectId"
  issued :: nat
  fault :: "string option"

text \<open>
  A query is a dict of field values; the handlers only build equality queries on a string
  or on an \<^verbatim>\<open>ObjectId\<close>. A document matches when it has each field with that value.
\<close>

definition matches :: "document \<Rightarrow> document \<Rightarrow> bool" where
  "matches q d = list_all (\<lambda>(k, v). map_of d k = Some v) q"

definition count_documents :: "store \<Rightarrow> exc + nat" where
  "count_documents st =
     (case fault st of Some m \<Rightarrow> Inl (PyMongoError m) | None \<Rightarrow> Inr (length (docs st)))"

definition find_one :: "store \<Rightarrow> document \<Rightarrow> exc + document option" where
  "find_one st q =
     (case fault st of
        Some m \<Rightarrow> Inl (PyMongoError m)
      | None \<Rightarrow> Inr (List.find (matches q) (docs st)))"

text \<open>
  An insert gives the document the next generated identifier; the collection's unique index
  on \<^verbatim>\<open>_id\<close> rejects an identifier that is already stored.
\<close>

definition insert_one :: "store \<Rightarrow> document \<Rightarrow> (exc + ObjectId) \<times> store" where
  "insert_one st d =
     (case fault st of
        Some m \<Rightarrow> (Inl (PyMongoError m), st)
      | None \<Rightarrow>
         (let oid = oid_supply st (issued st) in
          if list_ex (\<lambda>x. map_of x ''_id'' = Some (POid oid)) (docs st)
          then (Inl (PyMongoError ''duplicate key''), st\<lparr>issued := Suc (issued st)\<rparr>)
          else (Inr oid, st\<lparr>docs := docs st @ [(''_id'', POid oid) # d],
                              issued := Suc (issued st)\<rparr>)))"

fun insert_all :: "store \<Rightarrow> document list \<Rightarrow> (exc + ObjectId list) \<times> store" where
  "insert_all st [] = (Inr [], st)"
| "insert_all st (d # ds) =
     (case insert_one st d of
        (Inl e, st') \<Rightarrow> (Inl e, st')
      | (Inr oid, st') \<Rightarrow>
         (case insert_all st' ds of
            (Inl e, st'') \<Rightarrow> (Inl e, st'')
          | (Inr oids, st'') \<Rightarrow> (Inr (oid # oids), st'')))"

text \<open>An ordered \<^verbatim>\<open>insert_many\<close>: it stops at the first failure; an empty list is refused.\<close>

definition insert_many :: "store \<Rightarrow> document list \<Rightarrow> (exc + ObjectId list) \<times> store" where
  "insert_many st ds = (if ds = [] then (Inl TypeError, st) else insert_all st ds)"

text \<open>
  Modelled from the spec: \<^verbatim>\<open>database.create_document\<close> is imported by main.py but is not
  among the sources. Section 4.3 (\<^verbatim>\<open>insertOne\<close>) and 4.4 (create product): the document is
  persisted field for field, the store assigns the identifier, and the identifier's
  external string form is returned; no error is translated.
\<close>

definition create_document :: "pylib \<Rightarrow> store \<Rightarrow> document \<Rightarrow> (exc + string) \<times> store" where
  "create_document P st data =
     (case insert_one st data of
        (Inl e, st') \<Rightarrow> (Inl e, st')
      | (Inr oid, st') \<Rightarrow> (Inr (py_str P (POid oid)), st'))"

text \<open>
  Modelled from the spec: \<^verbatim>\<open>database.get_documents\<close> is imported by main.py but is not
  among the sources. Section 4.3 (\<^verbatim>\<open>find\<close>): an equality filter on each supplied field, the
  result capped at \<^verbatim>\<open>limit\<close> when one is supplied and not capped otherwise, in insertion
  order; no error is translated.
\<close>

definition get_documents :: "store \<Rightarrow> document \<Rightarrow> int option \<Rightarrow> exc + document list" where
  "get_documents st filters limit =
     (case fault st of
        Some m \<Rightarrow> Inl (PyMongoError m)
      | None \<Rightarrow>
         (let found = filter (matches filters) (docs st) in
          Inr (case limit of None \<Rightarrow> found | Some n \<Rightarrow> take (nat n) found)))"

subsection \<open>Identifiers\<close>

definition is_hex_digit :: "char \<Rightarrow> bool" where
  "is_hex_digit c = (c \<in> set ''0123456789abcdefABCDEF'')"

definition is_lower_hex_digit :: "char \<Rightarrow> bool" where
  "is_lower_hex_digit c = (c \<in> set ''0123456789abcdef'')"

definition to_lower_hex :: "char \<Rightarrow> char" where
  "to_lower_hex c =
     (if c = CHR ''A'' then CHR ''a'' else if c = CHR ''B'' then CHR ''b''
      else if c = CHR ''C'' then CHR ''c'' else if c = CHR ''D'' then CHR ''d''
      else if c = CHR ''E'' then CHR ''e'' else if c = CHR ''F'' then CHR ''f'' else c)"

text \<open>ASCII whitespace: space, tab, line feed, vertical tab, form feed, carriage return.\<close>

definition is_space :: "char \<Rightarrow> bool" where
  "is_space c = (c \<in> set [CHR '' '', CHR 0x09, CHR 0x0A, CHR 0x0B, CHR 0x0C, CHR 0x0D])"

text \<open>
  \<^verbatim>\<open>bytes.fromhex\<close>: the string is read as pairs of hexadecimal digits, in either case;
  whitespace before a pair and at the end is skipped; anything else raises. The bytes are
  given by their lower-case digits.
\<close>

fun fromhex :: "string \<Rightarrow> string option" where
  "fromhex [] = Some []"
| "fromhex (c # cs) =
     (if is_space c then fromhex cs
      else (case cs of
              [] \<Rightarrow> None
            | d # ds \<Rightarrow>
                if is_hex_digit c \<and> is_hex_digit d
                then map_option (\<lambda>r. to_lower_hex c # to_lower_hex d # r) (fromhex ds)
                else None))"

text \<open>
  \<^verbatim>\<open>ObjectId.is_valid\<close> on a string is true when \<^verbatim>\<open>ObjectId(s)\<close> does not raise: the
  string has 24 characters and \<^verbatim>\<open>bytes.fromhex\<close> reads it. A string of 24 characters
  with whitespace between its pairs is therefore valid, and gives fewer than 12 bytes.
\<close>

definition ObjectId_is_valid :: "string \<Rightarrow> bool" where
  "ObjectId_is_valid s = (length s = 24 \<and> fromhex s \<noteq> None)"

text \<open>\<^verbatim>\<open>ObjectId(s)\<close>: the identifier the digits denote, or \<^verbatim>\<open>InvalidId\<close>.\<close>

definition ObjectId_new :: "string \<Rightarrow> exc + ObjectId" where
  "ObjectId_new s =
     (if length s = 24
      then (case fromhex s of None \<Rightarrow> Inl InvalidId | Some h \<Rightarrow> Inr (ObjectId h))
      else Inl InvalidId)"

text \<open>The identifiers the driver generates are of this form.\<close>

fun canonical :: "ObjectId \<Rightarrow> bool" where
  "canonical (ObjectId h) = (length h = 24 \<and> list_all is_lower_hex_digit h)"

subsection \<open>Product routes\<close>

text \<open>A list comprehension over a function that may raise: the first exception ends it.\<close>

fun map_exc :: "('a \<Rightarrow> exc + 'b) \<Rightarrow> 'a list \<Rightarrow> exc + 'b list" where
  "map_exc f [] = Inr []"
| "map_exc f (x # xs) =
     (case f x of
        Inl e \<Rightarrow> Inl e
      | Inr y \<Rightarrow> (case map_exc f xs of Inl e \<Rightarrow> Inl e | Inr ys \<Rightarrow> Inr (y # ys)))"

text \<open>
  \<^verbatim>\<open>list_products\<close> (lines 114-124). \<^verbatim>\<open>db\<close> is \<open>None\<close> when the store is not configured.
  \<^verbatim>\<open>if category:\<close> is false for \<^verbatim>\<open>None\<close> and for the empty string.
\<close>

definition list_products ::
  "pylib \<Rightarrow> store option \<Rightarrow> int option \<Rightarrow> string option \<Rightarrow> exc + ProductOut list" where
  "list_products P db limit categ =
     (case db of
        None \<Rightarrow> Inl (HTTPException 500 ''Database not configured'')
      | Some st \<Rightarrow>
         (let filters = (case categ of
                           None \<Rightarrow> []
                         | Some c \<Rightarrow> if c \<noteq> [] then [(''category'', PStr c)] else []) in
          case get_documents st filters limit of
            Inl e \<Rightarrow> Inl e
          | Inr ds \<Rightarrow> map_exc (product_doc_to_out P) ds))"

text \<open>
  \<^verbatim>\<open>get_product\<close> (lines 127-140). The \<^verbatim>\<open>try\<close> block holds both the construction of the
  \<^verbatim>\<open>ObjectId\<close> and the call of \<^verbatim>\<open>find_one\<close>; \<^verbatim>\<open>not doc\<close> is true for \<^verbatim>\<open>None\<close> and for an
  empty dict.
\<close>

definition get_product :: "pylib \<Rightarrow> store option \<Rightarrow> string \<Rightarrow> exc + ProductOut" where
  "get_product P db product_id =
     (case db of
        None \<Rightarrow> Inl (HTTPException 500 ''Database not configured'')
      | Some st \<Rightarrow>
         (case (case ObjectId_new product_id of
                  Inl e \<Rightarrow> Inl e
                | Inr oid \<Rightarrow> find_one st [(''_id'', POid oid)]) of
            Inl e \<Rightarrow> Inl (HTTPException 400 ''Invalid product id'')
          | Inr doc \<Rightarrow>
             (case doc of
                None \<Rightarrow> Inl (HTTPException 404 ''Product not found'')
              | Some d \<Rightarrow>
                  if d = [] then Inl (HTTPException 404 ''Product not found'')
                  else product_doc_to_out P d)))"

definition opt_str :: "string option \<Rightarrow> pyval" where
  "opt_str r = (case r of None \<Rightarrow> PNone | Some s \<Rightarrow> PStr s)"

text \<open>\<^verbatim>\<open>payload.model_dump()\<close>: the seven fields as a dict.\<close>

definition model_dump :: "ProductCreate \<Rightarrow> document" where
  "model_dump pc =
     [(''title'', PStr (title pc)),
      (''description'', opt_str (description pc)),
      (''price'', PFloat (price pc)),
      (''category'', PStr (category pc)),
      (''in_stock'', PBool (in_stock pc)),
      (''image_url'', opt_str (image_url pc)),
      (''rating'', opt_float (rating pc))]"

text \<open>
  \<^verbatim>\<open>create_product\<close> (lines 143-151). The framework validates the request body against
  \<^verbatim>\<open>ProductCreate\<close> before the handler runs.
\<close>

definition create_product ::
  "pylib \<Rightarrow> store option \<Rightarrow> document \<Rightarrow> (exc + string) \<times> store option" where
  "create_product P db body =
     (case ProductCreate_validate P body of
        Inl e \<Rightarrow> (Inl e, db)
      | Inr payload \<Rightarrow>
         (case db of
            None \<Rightarrow> (Inl (HTTPException 500 ''Database not configured''), None)
          | Some st \<Rightarrow>
             (let product = model_dump payload in
              case create_document P st product of (r, st') \<Rightarrow> (r, Some st'))))"

definition sample_products :: "document list" where
  "sample_products =
     [[(''title'', PStr ''Pastel Visa Card''),
       (''description'', PStr ''Minimalist fintech card with soft-touch finish''),
       (''price'', PFloat 29.99),
       (''category'', PStr ''Cards''),
       (''in_stock'', PBool True),
       (''image_url'', PStr ''https://images.unsplash.com/photo-1543002588-bfa74002ed7e?q=80&w=1200&auto=format&fit=crop''),
       (''rating'', PFloat 4.8)],
      [(''title'', PStr ''Digital Wallet Subscription''),
       (''description'', PStr ''Secure multi-currency wallet with instant transfers''),
       (''price'', PFloat 9.99),
       (''category'', PStr ''Services''),
       (''in_stock'', PBool True),
       (''image_url'', PStr ''https://images.unsplash.com/photo-1612178991541-baf93d77a9a0?q=80&w=1200&auto=format&fit=crop''),
       (''rating'', PFloat 4.7)],
      [(''title'', PStr ''Smart NFC Tag''),
       (''description'', PStr ''Tap-to-pay accessory for seamless checkout''),
       (''price'', PFloat 14.5),
       (''category'', PStr ''Accessories''),
       (''in_stock'', PBool True),
       (''image_url'', PStr ''https://images.unsplash.com/photo-1518770660439-4636190af475?q=80&w=1200&auto=format&fit=crop''),
       (''rating'', PFloat 4.4)],
      [(''title'', PStr ''Premium Card Holder''),
       (''description'', PStr ''Matte silicone holder in pastel tones''),
       (''price'', PFloat 19.0),
       (''category'', PStr ''Accessories''),
       (''in_stock'', PBool True),
       (''image_url'', PStr ''https://images.unsplash.com/photo-1537039557101-0e0f4e3d0f51?q=80&w=1200&auto=format&fit=crop''),
       (''rating'', PFloat 4.6)]]"

text \<open>\<^verbatim>\<open>seed_products\<close> (lines 154-203). The response is a dict.\<close>

definition seed_products :: "store option \<Rightarrow> (exc + document) \<times> store option" where
  "seed_products db =
     (case db of
        None \<Rightarrow> (Inl (HTTPException 500 ''Database not configured''), None)
      | Some st \<Rightarrow>
         (case count_documents st of
            Inl e \<Rightarrow> (Inl e, Some st)
          | Inr count \<Rightarrow>
              if count > 0
              then (Inr [(''inserted'', PInt 0), (''message'', PStr ''Products already exist'')],
                    Some st)
              else
                (case insert_many st sample_products of
                   (Inl e, st') \<Rightarrow> (Inl e, Some st')
                 | (Inr inserted_ids, st') \<Rightarrow>
                     (Inr [(''inserted'', PInt (int (length inserted_ids)))], Some st'))))"

subsection \<open>Notions used in the statements\<close>

definition is_text :: "pyval \<Rightarrow> bool" where
  "is_text v = (case v of PStr s \<Rightarrow> True | _ \<Rightarrow> False)"

definition is_optional_text :: "pyval \<Rightarrow> bool" where
  "is_optional_text v = (v = PNone \<or> is_text v)"

definition float_within :: "pylib \<Rightarrow> (real \<Rightarrow> bool) \<Rightarrow> pyval \<Rightarrow> bool" where
  "float_within P ok v = (case py_float P v of Inl e \<Rightarrow> False | Inr f \<Rightarrow> ok f)"

text \<open>
  The title and the category are strings; the description and the image URL are strings,
  null or absent; the price is absent or converts to a float that is not negative; the
  rating is absent, null or converts to a float between 0 and 5.
\<close>

definition readable_doc :: "pylib \<Rightarrow> document \<Rightarrow> bool" where
  "readable_doc P doc =
     (is_text (dict_get doc ''title'') \<and>
      is_text (dict_get doc ''category'') \<and>
      is_optional_text (dict_get doc ''description'') \<and>
      is_optional_text (dict_get doc ''image_url'') \<and>
      float_within P (\<lambda>f. 0 \<le> f) (dict_get_default doc ''price'' (PInt 0)) \<and>
      (dict_get doc ''rating'' = PNone \<or>
       float_within P (\<lambda>f. 0 \<le> f \<and> f \<le> 5) (dict_get doc ''rating'')))"

text \<open>
  The documents \<^verbatim>\<open>list_products\<close> asks for: all of them when no category is given or
  the category is the empty string, else those of that category.
\<close>

definition selected :: "string option \<Rightarrow> document \<Rightarrow> bool" where
  "selected categ d =
     (case categ of None \<Rightarrow> True | Some c \<Rightarrow> c = [] \<or> map_of d ''category'' = Some (PStr c))"

text \<open>The next identifier of the driver is not yet stored.\<close>

definition next_oid_fresh :: "store \<Rightarrow> bool" where
  "next_oid_fresh st =
     (\<not> list_ex (\<lambda>x. map_of x ''_id'' = Some (POid (oid_supply st (issued st)))) (docs st))"

text \<open>
  The create payload as the specification words it (sections 4.2 and 6), for a body whose
  fields have their JSON types: the title and the category are strings, the description
  and the image URL are strings, null or absent, the price is a number, \<^verbatim>\<open>in_stock\<close> is
  a boolean or absent, the rating is a number, null or absent. A number is a float, or an
  int that has a float.
\<close>

definition number_value :: "pyval \<Rightarrow> real option" where
  "number_value v = (case v of PFloat f \<Rightarrow> Some f | PInt i \<Rightarrow> float_of_int i | _ \<Rightarrow> None)"

definition is_number :: "pyval \<Rightarrow> bool" where
  "is_number v = (case number_value v of None \<Rightarrow> False | Some x \<Rightarrow> True)"

definition is_optional_bool :: "pyval option \<Rightarrow> bool" where
  "is_optional_bool v = (case v of None \<Rightarrow> True | Some (PBool b) \<Rightarrow> True | _ \<Rightarrow> False)"

definition well_typed_body :: "document \<Rightarrow> bool" where
  "well_typed_body body =
     (is_text (dict_get body ''title'') \<and>
      is_text (dict_get body ''category'') \<and>
      is_optional_text (dict_get body ''description'') \<and>
      is_optional_text (dict_get body ''image_url'') \<and>
      is_number (dict_get body ''price'') \<and>
      is_optional_bool (map_of body ''in_stock'') \<and>
      (dict_get body ''rating'' = PNone \<or> is_number (dict_get body ''rating'')))"

text \<open>The range constraints: the price is at least 0, a rating lies between 0 and 5.\<close>

definition constraint_violated :: "document \<Rightarrow> bool" where
  "constraint_violated body =
     ((case number_value (dict_get body ''price'') of None \<Rightarrow> False | Some p \<Rightarrow> p < 0) \<or>
      (case number_value (dict_get body ''rating'') of None \<Rightarrow> False
       | Some r \<Rightarrow> r < 0 \<or> 5 < r))"

subsection \<open>Example data\<close>


text \<open>A library that coerces nothing and whose \<^verbatim>\<open>float()\<close> reads no string.\<close>

definition strict_lib :: pylib where
  "strict_lib = \<lparr>float_of_str = (\<lambda>s. None), repr_float = (\<lambda>f. ''<float>''),
                  lax_float = (\<lambda>v. None), lax_bool = (\<lambda>v. None)\<rparr>"

definition doc_no_title :: document where
  "doc_no_title = [(''_id'', POid (ObjectId ''0123456789abcdef01234567'')),
                   (''price'', PFloat 9.99), (''category'', PStr ''Cards'')]"

definition doc_sparse :: document where
  "doc_sparse = [(''_id'', POid (ObjectId ''0123456789abcdef01234567'')),
                 (''title'', PStr ''Gift Card''), (''category'', PStr ''Cards'')]"

definition doc_card :: document where
  "doc_card = [(''_id'', POid (ObjectId ''0123456789abcdef01234567'')),
               (''title'', PStr ''Gift Card''), (''price'', PFloat 9.99),
               (''category'', PStr ''Cards'')]"

text \<open>A driver whose \<open>n\<close>-th identifier ends in the digit \<open>n\<close>.\<close>

definition example_supply :: "nat \<Rightarrow> ObjectId" where
  "example_supply n = ObjectId (''00000000000000000000000'' @ [digit_char n])"

definition empty_store :: store where
  "empty_store = \<lparr>docs = [], oid_supply = example_supply, issued = 0, fault = None\<rparr>"

definition cards_store :: store where
  "cards_store = \<lparr>docs = [doc_card], oid_supply = example_supply, issued = 0, fault = None\<rparr>"

definition down_store :: store where
  "down_store = \<lparr>docs = [doc_card], oid_supply = example_supply, issued = 0,
                  fault = Some ''connection refused''\<rparr>"

text \<open>The titles of the fixture, in order.\<close>

definition seed_titles :: "pyval option list" where
  "seed_titles = [Some (PStr ''Pastel Visa Card''), Some (PStr ''Digital Wallet Subscription''),
                  Some (PStr ''Smart NFC Tag''), Some (PStr ''Premium Card Holder'')]"

definition out_card :: ProductOut where
  "out_card = \<lparr>title = ''Gift Card'', description = None, price = 9.99, category = ''Cards'',
                in_stock = True, image_url = None, rating = None,
                id' = ''0123456789abcdef01234567''\<rparr>"

definition doc_tag :: document where
  "doc_tag = [(''_id'', POid (ObjectId ''0123456789abcdef01234568'')),
              (''title'', PStr ''NFC Tag''), (''price'', PFloat 14.5),
              (''category'', PStr ''Accessories''), (''in_stock'', PBool False),
              (''rating'', PFloat 4.4)]"

definition out_tag :: ProductOut where
  "out_tag = \<lparr>title = ''NFC Tag'', description = None, price = 14.5,
               category = ''Accessories'', in_stock = False, image_url = None,
               rating = Some 4.4, id' = ''0123456789abcdef01234568''\<rparr>"

definition shop_store :: store where
  "shop_store = \<lparr>docs = [doc_card, doc_tag], oid_supply = example_supply, issued = 0,
                  fault = None\<rparr>"

definition body_min :: document where
  "body_min = [(''title'', PStr ''Gift Card''), (''price'', PFloat 9.99),
               (''category'', PStr ''Cards'')]"

definition body_negative_price :: document where
  "body_negative_price = [(''title'', PStr ''Gift Card''), (''price'', PInt (- 1)),
                          (''category'', PStr ''Cards'')]"

definition body_high_rating :: document where
  "body_high_rating = [(''title'', PStr ''Gift Card''), (''price'', PFloat 9.99),
                       (''category'', PStr ''Cards''), (''rating'', PFloat 5.1)]"

definition payload_min :: ProductCreate where
  "payload_min = \<lparr>title = ''Gift Card'', description = None, price = 9.99,
                   category = ''Cards'', in_stock = True, image_url = None,
                   rating = Some 4.5\<rparr>"

section \<open>Properties\<close>

subsection \<open>Conversions\<close>

lemma bit_length_le: "n < 2 ^ k \<Longrightarrow> bit_length n \<le> k"
proof (induction k arbitrary: n)
  case 0
  then show ?case by (simp add: bit_length.simps)
next
  case (Suc k)
  then have "n div 2 < 2 ^ k" by auto
  from Suc.IH [OF this] show ?case
    by (subst bit_length.simps) simp
qed

text \<open>An int of at most 53 bits is converted exactly.\<close>

lemma float_of_int_exact [simp]:
  assumes "\<bar>i\<bar> < 2 ^ 53"
  shows "float_of_int i = Some (of_int i)"
proof -
  let ?m = "nat \<bar>i\<bar>"
  from assms have m: "?m < 2 ^ 53"
    by (simp add: nat_less_iff)
  then have e: "bit_length ?m - 53 = 0"
    using bit_length_le [of ?m 53] by simp
  have "(2::nat) ^ 53 \<le> 2 ^ 1024"
    by (rule power_increasing) simp_all
  with m have b: "\<not> (2::nat) ^ 1024 \<le> ?m"
    by linarith
  have "float_of_int i = Some (if i < 0 then - real ?m else real ?m)"
    unfolding float_of_int_def Let_def e using b by (simp del: power_numeral)
  then show ?thesis by auto
qed

lemma bit_length_lower: "0 < m \<Longrightarrow> 2 ^ (bit_length m - 1) \<le> m"
proof (induction m rule: bit_length.induct)
  case (1 n)
  show ?case
  proof (cases "n div 2 = 0")
    case True
    with 1(2) have "n = 1" by (simp add: div_eq_0_iff) 
    then show ?thesis
      by (simp add: bit_length.simps [of "Suc 0"] bit_length.simps [of 0])
  next
    case False
    with 1 have ih: "2 ^ (bit_length (n div 2) - 1) \<le> n div 2" by simp
    from False have "0 < bit_length (n div 2)"
      by (subst bit_length.simps) simp
    then have "bit_length n - 1 = Suc (bit_length (n div 2) - 1)"
      using 1(2) by (subst bit_length.simps) simp
    with ih show ?thesis by simp
  qed
qed

lemma bit_length_upper: "m < 2 ^ bit_length m"
proof (induction m rule: bit_length.induct)
  case (1 n)
  show ?case
  proof (cases "n = 0")
    case True
    then show ?thesis by simp
  next
    case False
    with 1 have "n div 2 < 2 ^ bit_length (n div 2)" by simp
    then have "n < 2 * 2 ^ bit_length (n div 2)" by linarith
    with False show ?thesis
      by (subst bit_length.simps) simp
  qed
qed

text \<open>An int of more than 1024 bits has no float.\<close>

lemma float_of_int_overflow:
  assumes "2 ^ 1024 \<le> \<bar>i\<bar>"
  shows "float_of_int i = None"
proof -
  define m where "m = nat \<bar>i\<bar>"
  define n where "n = bit_length m"
  define e where "e = n - 53"
  define q where "q = m div 2 ^ e"
  define r where "r = m mod 2 ^ e"
  define q' where "q' = (if 2 ^ e < 2 * r \<or> (2 * r = 2 ^ e \<and> odd q) then Suc q else q)"
  from assms have m: "2 ^ 1024 \<le> m"
    unfolding m_def by (simp add: le_nat_iff del: power_numeral)
  have "m < 2 ^ n"
    unfolding n_def by (rule bit_length_upper)
  with m have "(2::nat) ^ 1024 < 2 ^ n" by (rule le_less_trans)
  then have n: "1024 < n" by (simp del: power_numeral)
  have "0 < m"
    using m by (metis gr0I not_less_eq_eq power_eq_0_iff zero_neq_numeral le_zero_eq)
  then have lo: "2 ^ (n - 1) \<le> m"
    unfolding n_def by (rule bit_length_lower)
  have s: "n - 1 = 52 + e"
    using n by (simp add: e_def)
  have "(2::nat) ^ (n - 1) = 2 ^ 52 * 2 ^ e"
    unfolding s by (rule power_add)
  with lo have "2 ^ 52 * 2 ^ e \<le> m" by (simp del: power_numeral)
  then have "2 ^ 52 \<le> q"
    unfolding q_def by (simp add: less_eq_div_iff_mult_less_eq del: power_numeral)
  moreover have "q \<le> q'" by (simp add: q'_def)
  ultimately have "(2::nat) ^ 52 * 2 ^ e \<le> q' * 2 ^ e"
    by (intro mult_right_mono) (auto simp del: power_numeral)
  then have "(2::nat) ^ (n - 1) \<le> q' * 2 ^ e"
    unfolding s by (simp add: power_add del: power_numeral)
  moreover have "(2::nat) ^ 1024 \<le> 2 ^ (n - 1)"
    using n by (intro power_increasing) simp_all
  ultimately have "2 ^ 1024 \<le> q' * 2 ^ e"
    by (rule order_trans [rotated])
  then show ?thesis
    unfolding float_of_int_def Let_def q'_def q_def r_def e_def n_def m_def
    by (simp del: power_numeral)
qed

lemma is_space_iff:
  "is_space c \<longleftrightarrow> c = CHR '' '' \<or> c = CHR 0x09 \<or> c = CHR 0x0A \<or> c = CHR 0x0B \<or>
     c = CHR 0x0C \<or> c = CHR 0x0D"
  by (simp add: is_space_def)

lemma space_not_lower_hex:
  assumes "is_space c"
  shows "\<not> is_lower_hex_digit c"
proof -
  from assms consider "c = CHR '' ''" | "c = CHR 0x09" | "c = CHR 0x0A" | "c = CHR 0x0B"
    | "c = CHR 0x0C" | "c = CHR 0x0D"
    unfolding is_space_iff by blast
  then show ?thesis
    by cases (simp_all add: is_lower_hex_digit_def)
qed


lemma lower_hex_digit:
  "is_lower_hex_digit c \<Longrightarrow> is_hex_digit c \<and> to_lower_hex c = c"
  by (auto simp: is_lower_hex_digit_def is_hex_digit_def to_lower_hex_def)

text \<open>\<^verbatim>\<open>bytes.fromhex\<close> reads an even number of lower-case digits as they are.\<close>

lemma fromhex_lower:
  "list_all is_lower_hex_digit h \<Longrightarrow> even (length h) \<Longrightarrow> fromhex h = Some h"
proof (induction h rule: induct_list012)
  case 1
  then show ?case by simp
next
  case (2 x)
  then show ?case by simp
next
  case (3 x y zs)
  then have x: "is_lower_hex_digit x" and y: "is_lower_hex_digit y"
    and r: "fromhex zs = Some zs"
    by simp_all
  from x have "\<not> is_space x"
    using space_not_lower_hex by blast
  with x y r show ?case
    by (simp add: lower_hex_digit)
qed



subsection \<open>Validation\<close>

lemmas field_defs = f_title_def f_description_def f_price_def f_category_def f_in_stock_def
  f_image_url_def f_rating_def f_id_def required_def with_default_def val_optional_def
  val_float_ge_def val_float_ge_le_def

lemmas eval_defs = product_doc_to_out_def dict_get_def dict_get_default_def
  ProductOut_validate_def ProductCreate_validate_def ProductCreate_errors_def field_error_def
  field_defs opt_float_def opt_str_def

lemma ProductCreate_validate_Inr:
  "ProductCreate_validate P d = Inr pc \<longleftrightarrow>
     f_title d = Some (title pc) \<and> f_description d = Some (description pc) \<and>
     f_price P d = Some (price pc) \<and> f_category d = Some (category pc) \<and>
     f_in_stock P d = Some (in_stock pc) \<and> f_image_url d = Some (image_url pc) \<and>
     f_rating P d = Some (rating pc)"
  unfolding ProductCreate_validate_def
  by (cases pc) (auto split: option.splits)

lemma ProductCreate_validate_Inl:
  "ProductCreate_validate P d = Inl e \<Longrightarrow> e = ValidationError (ProductCreate_errors P d)"
  unfolding ProductCreate_validate_def
  by (auto split: option.splits)

lemma ProductOut_validate_Inr:
  "ProductOut_validate P d = Inr out \<longleftrightarrow>
     ProductCreate_validate P d = Inr (ProductCreate.truncate out) \<and> f_id d = Some (id' out)"
  unfolding ProductOut_validate_def
  by (cases out)
     (auto split: option.splits sum.splits
        simp: ProductCreate.truncate_def ProductCreate.extend_def ProductOut.fields_def)

lemma val_str_Some: "val_str v = Some s \<longleftrightarrow> v = PStr s"
  by (cases v) auto

lemma val_optional_str_Some:
  "val_optional val_str v = Some r \<longleftrightarrow> v = opt_str r"
  by (cases v; cases r) (auto simp: val_optional_def opt_str_def)

text \<open>The keyword arguments that \<^verbatim>\<open>product_doc_to_out\<close> passes, and when they validate.\<close>

lemma kwargs_valid:
  "ProductOut_validate P
     [(''id'', PStr i), (''title'', t), (''description'', de), (''price'', PFloat p),
      (''category'', c), (''in_stock'', PBool s), (''image_url'', iu),
      (''rating'', opt_float r)] = Inr out \<longleftrightarrow>
   id' out = i \<and> t = PStr (title out) \<and> de = opt_str (description out) \<and>
   0 \<le> p \<and> price out = p \<and> c = PStr (category out) \<and> in_stock out = s \<and>
   iu = opt_str (image_url out) \<and> rating out = r \<and>
   (case r of None \<Rightarrow> True | Some x \<Rightarrow> 0 \<le> x \<and> x \<le> 5)"
  unfolding ProductOut_validate_Inr ProductCreate_validate_Inr
  by (cases r)
     (auto simp: field_defs val_str_Some opt_float_def ProductCreate.truncate_def
        map_option_case val_optional_str_Some[unfolded val_optional_def]
        split: option.splits if_splits)

subsection \<open>The mapping from a stored document to the API output\<close>

lemma dict_get_default_present:
  "dict_get d k \<noteq> PNone \<Longrightarrow> dict_get_default d k dflt = dict_get d k"
  by (auto simp: dict_get_def dict_get_default_def split: option.splits)

text \<open>When the mapping returns, and what.\<close>

lemma product_doc_to_out_Inr:
  "product_doc_to_out P doc = Inr out \<longleftrightarrow>
     id' out = py_str P (dict_get doc ''_id'') \<and>
     dict_get doc ''title'' = PStr (title out) \<and>
     dict_get doc ''description'' = opt_str (description out) \<and>
     py_float P (dict_get_default doc ''price'' (PInt 0)) = Inr (price out) \<and>
     0 \<le> price out \<and>
     dict_get doc ''category'' = PStr (category out) \<and>
     in_stock out = py_bool (dict_get_default doc ''in_stock'' (PBool True)) \<and>
     dict_get doc ''image_url'' = opt_str (image_url out) \<and>
     (if dict_get doc ''rating'' = PNone then rating out = None
      else \<exists>r. py_float P (dict_get doc ''rating'') = Inr r \<and> 0 \<le> r \<and> r \<le> 5 \<and>
               rating out = Some r)"
proof (cases "dict_get doc ''rating'' = PNone")
  case True
  then show ?thesis
    unfolding product_doc_to_out_def
    by (auto simp: kwargs_valid split: sum.splits)
next
  case False
  then show ?thesis
    unfolding product_doc_to_out_def
    by (cases "py_float P (dict_get doc ''rating'')")
       (auto simp: kwargs_valid dict_get_default_present split: sum.splits)
qed

text \<open>A document that \<open>readable_doc\<close> accepts has an output.\<close>

lemma readable_doc_out:
  assumes "readable_doc P doc"
  shows "\<exists>out. product_doc_to_out P doc = Inr out"
proof -
  from assms obtain t c where t: "dict_get doc ''title'' = PStr t"
    and c: "dict_get doc ''category'' = PStr c"
    by (auto simp: readable_doc_def is_text_def split: pyval.splits)
  from assms obtain de iu where de: "dict_get doc ''description'' = opt_str de"
    and iu: "dict_get doc ''image_url'' = opt_str iu"
    by (auto simp: readable_doc_def is_optional_text_def is_text_def opt_str_def
        split: pyval.splits) (metis option.simps(4,5))+
  from assms obtain p where p: "py_float P (dict_get_default doc ''price'' (PInt 0)) = Inr p"
    and p0: "0 \<le> p"
    by (auto simp: readable_doc_def float_within_def split: sum.splits)
  have "\<exists>r. if dict_get doc ''rating'' = PNone then r = None
     else \<exists>x. py_float P (dict_get doc ''rating'') = Inr x \<and> 0 \<le> x \<and> x \<le> 5 \<and> r = Some x"
    using assms
    by (cases "dict_get doc ''rating'' = PNone")
       (auto simp: readable_doc_def float_within_def split: sum.splits)
  then obtain r where r:
    "if dict_get doc ''rating'' = PNone then r = None
     else \<exists>x. py_float P (dict_get doc ''rating'') = Inr x \<and> 0 \<le> x \<and> x \<le> 5 \<and> r = Some x"
    by blast
  define out where "out = \<lparr>title = t, description = de, price = p, category = c,
    in_stock = py_bool (dict_get_default doc ''in_stock'' (PBool True)), image_url = iu,
    rating = r, id' = py_str P (dict_get doc ''_id'')\<rparr>"
  have "product_doc_to_out P doc = Inr out"
    unfolding product_doc_to_out_Inr using t c de iu p p0 r by (simp add: out_def)
  then show ?thesis by blast
qed

text \<open>
  C1, as stated, fails: a stored document without a title is rejected by the validation
  of \<^verbatim>\<open>ProductOut\<close>, whose \<^verbatim>\<open>title\<close> is a required string.
\<close>

theorem product_doc_to_out_missing_title:
  "product_doc_to_out strict_lib doc_no_title = Inl (ValidationError [''title''])"
  by (simp add: eval_defs doc_no_title_def strict_lib_def)

text \<open>
  C1, amended: for every stored document that \<open>readable_doc\<close> accepts, the mapping
  \<^verbatim>\<open>product_doc_to_out\<close> returns an output; there a missing price is 0.0, a missing
  \<^verbatim>\<open>in_stock\<close> is true and an absent rating is an absent rating.
\<close>

theorem product_doc_to_out_readable:
  assumes "readable_doc P doc"
  shows "\<exists>out. product_doc_to_out P doc = Inr out \<and>
           (map_of doc ''price'' = None \<longrightarrow> price out = 0) \<and>
           (map_of doc ''in_stock'' = None \<longrightarrow> in_stock out = True) \<and>
           (map_of doc ''rating'' = None \<longrightarrow> rating out = None)"
proof -
  from readable_doc_out [OF assms] obtain out where ok: "product_doc_to_out P doc = Inr out"
    by blast
  then have p: "py_float P (dict_get_default doc ''price'' (PInt 0)) = Inr (price out)"
    and s: "in_stock out = py_bool (dict_get_default doc ''in_stock'' (PBool True))"
    and r: "dict_get doc ''rating'' = PNone \<longrightarrow> rating out = None"
    by (simp_all add: product_doc_to_out_Inr)
  have "map_of doc ''price'' = None \<longrightarrow> price out = 0"
    using p by (auto simp: dict_get_default_def)
  moreover have "map_of doc ''in_stock'' = None \<longrightarrow> in_stock out = True"
    using s by (simp add: dict_get_default_def)
  moreover have "map_of doc ''rating'' = None \<longrightarrow> rating out = None"
    using r by (simp add: dict_get_def)
  ultimately show ?thesis using ok by (intro exI[of _ out] conjI)
qed

text \<open>C1, amended, on a document with neither price, \<^verbatim>\<open>in_stock\<close> nor rating.\<close>

theorem product_doc_to_out_readable_witness:
  "readable_doc strict_lib doc_sparse \<and>
   product_doc_to_out strict_lib doc_sparse =
     Inr \<lparr>title = ''Gift Card'', description = None, price = 0, category = ''Cards'',
          in_stock = True, image_url = None, rating = None,
          id' = ''0123456789abcdef01234567''\<rparr>"
proof -
  have h: "readable_doc strict_lib doc_sparse"
    by (simp add: readable_doc_def doc_sparse_def dict_get_def dict_get_default_def
        is_text_def is_optional_text_def float_within_def)
  have e: "product_doc_to_out strict_lib doc_sparse =
     Inr \<lparr>title = ''Gift Card'', description = None, price = 0, category = ''Cards'',
          in_stock = True, image_url = None, rating = None,
          id' = ''0123456789abcdef01234567''\<rparr>"
    by (simp add: eval_defs doc_sparse_def strict_lib_def ProductCreate.extend_def
        ProductOut.fields_def)
  from product_doc_to_out_readable [OF h] e h show ?thesis by simp
qed

text \<open>The amendment loses nothing: on every other document the mapping raises.\<close>

lemma product_doc_to_out_fails:
  assumes "\<not> readable_doc P doc"
  shows "\<exists>e. product_doc_to_out P doc = Inl e"
proof (cases "product_doc_to_out P doc")
  case (Inl e)
  then show ?thesis by blast
next
  case (Inr out)
  then have f: "dict_get doc ''title'' = PStr (title out)"
    "dict_get doc ''description'' = opt_str (description out)"
    "py_float P (dict_get_default doc ''price'' (PInt 0)) = Inr (price out)"
    "0 \<le> price out"
    "dict_get doc ''category'' = PStr (category out)"
    "dict_get doc ''image_url'' = opt_str (image_url out)"
    "dict_get doc ''rating'' = PNone \<or>
       (\<exists>r. py_float P (dict_get doc ''rating'') = Inr r \<and> 0 \<le> r \<and> r \<le> 5)"
    unfolding product_doc_to_out_Inr by (auto split: if_splits)
  have "is_optional_text (opt_str r)" for r
    by (cases r) (simp_all add: is_optional_text_def is_text_def opt_str_def)
  with f have "readable_doc P doc"
    by (auto simp: readable_doc_def is_text_def float_within_def)
  with assms show ?thesis by contradiction
qed

text \<open>
  C10: a stored document whose rating is present but null is mapped exactly as the same
  document without the rating field, and the output, when there is one, has no rating.
\<close>

theorem rating_null_as_absent:
  assumes "map_of d ''rating'' = None"
    and "map_of d' = (map_of d)(''rating'' \<mapsto> PNone)"
  shows "product_doc_to_out P d' = product_doc_to_out P d \<and>
         (\<forall>out. product_doc_to_out P d = Inr out \<longrightarrow> rating out = None)"
proof -
  have g: "dict_get d' k = dict_get d k" for k
    using assms by (simp add: dict_get_def)
  have gd: "dict_get_default d' k dflt = dict_get_default d k dflt" if "k \<noteq> ''rating''"
    for k dflt
    using assms that by (simp add: dict_get_default_def)
  have n: "dict_get d ''rating'' = PNone"
    using assms by (simp add: dict_get_def)
  have "product_doc_to_out P d' = product_doc_to_out P d"
    unfolding product_doc_to_out_def by (simp add: g gd n cong: sum.case_cong)
  moreover have "rating out = None" if "product_doc_to_out P d = Inr out" for out
    using that n unfolding product_doc_to_out_Inr by simp
  ultimately show ?thesis by blast
qed

text \<open>C10 on a document without a rating, and the same document with a null rating.\<close>

theorem rating_null_as_absent_witness:
  "map_of doc_sparse ''rating'' = None \<and>
   product_doc_to_out strict_lib ((''rating'', PNone) # doc_sparse) =
     product_doc_to_out strict_lib doc_sparse \<and>
   product_doc_to_out strict_lib doc_sparse =
     Inr \<lparr>title = ''Gift Card'', description = None, price = 0, category = ''Cards'',
          in_stock = True, image_url = None, rating = None,
          id' = ''0123456789abcdef01234567''\<rparr>"
proof -
  have a: "map_of doc_sparse ''rating'' = None"
    by (simp add: doc_sparse_def)
  have b: "map_of ((''rating'', PNone) # doc_sparse) = (map_of doc_sparse)(''rating'' \<mapsto> PNone)"
    by simp
  have e: "product_doc_to_out strict_lib doc_sparse =
     Inr \<lparr>title = ''Gift Card'', description = None, price = 0, category = ''Cards'',
          in_stock = True, image_url = None, rating = None,
          id' = ''0123456789abcdef01234567''\<rparr>"
    by (simp add: eval_defs doc_sparse_def strict_lib_def ProductCreate.extend_def
        ProductOut.fields_def)
  from rating_null_as_absent [OF a b, of strict_lib] a e show ?thesis by simp
qed

subsection \<open>Get product by id\<close>

text \<open>Every route first refuses to run without a store.\<close>

lemma routes_unconfigured:
  "list_products P None limit categ = Inl (HTTPException 500 ''Database not configured'')"
  "get_product P None product_id = Inl (HTTPException 500 ''Database not configured'')"
  "seed_products None = (Inl (HTTPException 500 ''Database not configured''), None)"
  "ProductCreate_validate P body = Inr pc \<Longrightarrow>
     create_product P None body = (Inl (HTTPException 500 ''Database not configured''), None)"
  by (simp_all add: list_products_def get_product_def seed_products_def create_product_def)






text \<open>
  C9: when the driver raises inside \<^verbatim>\<open>find_one\<close>, whatever the identifier,
  \<^verbatim>\<open>get_product\<close> raises the 400 error \<^verbatim>\<open>Invalid product id\<close>.
\<close>

theorem get_product_driver_failure:
  assumes "fault st = Some m"
  shows "get_product P (Some st) product_id = Inl (HTTPException 400 ''Invalid product id'')"
  using assms by (simp add: get_product_def find_one_def split: sum.splits)

text \<open>C9 on a well-formed identifier: the lookup itself raises, and the caller sees 400.\<close>

theorem get_product_driver_failure_witness:
  "fault down_store = Some ''connection refused'' \<and>
   ObjectId_is_valid ''0123456789abcdef01234567'' \<and>
   find_one down_store [(''_id'', POid (ObjectId ''0123456789abcdef01234567''))] =
     Inl (PyMongoError ''connection refused'') \<and>
   get_product strict_lib (Some down_store) ''0123456789abcdef01234567'' =
     Inl (HTTPException 400 ''Invalid product id'')"
proof -
  have h: "fault down_store = Some ''connection refused''"
    by (simp add: down_store_def)
  have v: "ObjectId_is_valid ''0123456789abcdef01234567''"
    by (simp add: ObjectId_is_valid_def is_hex_digit_def is_space_def)
  have f: "find_one down_store [(''_id'', POid (ObjectId ''0123456789abcdef01234567''))] =
     Inl (PyMongoError ''connection refused'')"
    by (simp add: find_one_def down_store_def)
  from get_product_driver_failure [OF h] h v f show ?thesis by simp
qed

subsection \<open>Seed\<close>

text \<open>
  C5: when the collection counts at least one document, \<^verbatim>\<open>seed_products\<close> returns
  \<^verbatim>\<open>{inserted: 0, message: Products already exist}\<close> and leaves the store as it was.
\<close>

theorem seed_products_already_exist:
  assumes "count_documents st = Inr n" and "0 < n"
  shows "seed_products (Some st) =
           (Inr [(''inserted'', PInt 0), (''message'', PStr ''Products already exist'')],
            Some st)"
  using assms by (simp add: seed_products_def)

text \<open>C5 on a store of one document.\<close>

theorem seed_products_already_exist_witness:
  "count_documents cards_store = Inr 1 \<and>
   seed_products (Some cards_store) =
     (Inr [(''inserted'', PInt 0), (''message'', PStr ''Products already exist'')],
      Some cards_store)"
proof -
  have h: "count_documents cards_store = Inr 1"
    by (simp add: count_documents_def cards_store_def)
  from seed_products_already_exist [OF h] h show ?thesis by simp
qed

lemma count_documents_Inr:
  "count_documents st = Inr n \<longleftrightarrow> fault st = None \<and> length (docs st) = n"
  by (auto simp: count_documents_def split: option.splits)

lemma upt_four: "[i..<i + 4] = [i, Suc i, Suc (Suc i), Suc (Suc (Suc i))]"
  by (simp add: upt_rec [of i] upt_rec [of "Suc i"] upt_rec [of "Suc (Suc i)"]
      upt_rec [of "Suc (Suc (Suc i))"])

lemma insert_all_four:
  assumes "fault st = None" and "docs st = []"
    and "distinct (map (oid_supply st) [issued st..<issued st + 4])"
  shows "insert_all st [a, b, c, d] =
    (Inr [oid_supply st (issued st), oid_supply st (Suc (issued st)),
          oid_supply st (Suc (Suc (issued st))), oid_supply st (Suc (Suc (Suc (issued st))))],
     st\<lparr>docs := [(''_id'', POid (oid_supply st (issued st))) # a,
                  (''_id'', POid (oid_supply st (Suc (issued st)))) # b,
                  (''_id'', POid (oid_supply st (Suc (Suc (issued st))))) # c,
                  (''_id'', POid (oid_supply st (Suc (Suc (Suc (issued st)))))) # d],
         issued := issued st + 4\<rparr>)"
  using assms unfolding upt_four
  by (auto simp: insert_one_def Let_def)

text \<open>
  C6: on an empty collection, the driver issuing four distinct identifiers,
  \<^verbatim>\<open>seed_products\<close> returns \<^verbatim>\<open>{inserted: 4}\<close> and the collection then holds four documents:
  the fixture, in order, each under its new identifier; their titles are the four fixture
  titles.
\<close>

theorem seed_products_empty:
  assumes "count_documents st = Inr 0"
    and "distinct (map (oid_supply st) [issued st..<issued st + 4])"
  shows "\<exists>st'. seed_products (Some st) = (Inr [(''inserted'', PInt 4)], Some st') \<and>
           count_documents st' = Inr 4 \<and>
           map (\<lambda>d. map_of d ''title'') (docs st') = seed_titles \<and>
           map (\<lambda>d. tl d) (docs st') = sample_products"
proof -
  from assms(1) have f: "fault st = None" and e: "docs st = []"
    by (simp_all add: count_documents_Inr)
  obtain a b c d where s: "sample_products = [a, b, c, d]"
    by (simp add: sample_products_def)
  have t: "map (\<lambda>d. map_of d ''title'') sample_products = seed_titles"
    by (simp add: sample_products_def seed_titles_def)
  note ins = insert_all_four [OF f e assms(2), of a b c d]
  have "seed_products (Some st) = (Inr [(''inserted'', PInt 4)], Some (snd (insert_all st [a, b, c, d])))"
    using assms(1) by (simp add: seed_products_def insert_many_def s ins del: insert_all.simps)
  moreover have "count_documents (snd (insert_all st [a, b, c, d])) = Inr 4"
    by (simp add: ins count_documents_def f del: insert_all.simps)
  moreover have "map (\<lambda>d. tl d) (docs (snd (insert_all st [a, b, c, d]))) = sample_products"
    by (simp add: ins s del: insert_all.simps)
  moreover have "map (\<lambda>d. map_of d ''title'') (docs (snd (insert_all st [a, b, c, d]))) = seed_titles"
    using t by (simp add: ins s del: insert_all.simps)
  ultimately show ?thesis by blast
qed

text \<open>C6 on the empty example store.\<close>

theorem seed_products_empty_witness:
  "count_documents empty_store = Inr 0 \<and>
   distinct (map (oid_supply empty_store) [issued empty_store..<issued empty_store + 4]) \<and>
   (\<exists>st'. seed_products (Some empty_store) = (Inr [(''inserted'', PInt 4)], Some st') \<and>
           count_documents st' = Inr 4 \<and>
           map (\<lambda>d. map_of d ''title'') (docs st') = seed_titles)"
proof -
  have h: "count_documents empty_store = Inr 0"
    by (simp add: count_documents_def empty_store_def)
  have g: "distinct (map (oid_supply empty_store) [issued empty_store..<issued empty_store + 4])"
    unfolding upt_four
    by (simp add: empty_store_def example_supply_def digit_char_def)
  from seed_products_empty [OF h g] h g show ?thesis by blast
qed

subsection \<open>List products\<close>

lemma map_exc_total:
  assumes "\<forall>x\<in>set xs. \<exists>y. f x = Inr y"
  shows "\<exists>ys. map_exc f xs = Inr ys"
  using assms by (induction xs) (auto split: sum.splits)

lemma map_exc_set:
  "map_exc f xs = Inr ys \<Longrightarrow> y \<in> set ys \<Longrightarrow> \<exists>x\<in>set xs. f x = Inr y"
  by (induction xs arbitrary: ys) (auto split: sum.splits)

lemma map_exc_length: "map_exc f xs = Inr ys \<Longrightarrow> length ys = length xs"
  by (induction xs arbitrary: ys) (auto split: sum.splits)

lemma matches_category [simp]:
  "matches [(''category'', PStr c)] d \<longleftrightarrow> map_of d ''category'' = Some (PStr c)"
  by (simp add: matches_def)

lemma matches_empty [simp]: "matches [] d"
  by (simp add: matches_def)

lemma list_products_eq:
  assumes "fault st = None"
  shows "list_products P (Some st) limit categ =
     map_exc (product_doc_to_out P)
       (case limit of None \<Rightarrow> filter (selected categ) (docs st)
        | Some n \<Rightarrow> take (nat n) (filter (selected categ) (docs st)))"
proof -
  have "filter (matches (case categ of None \<Rightarrow> []
          | Some c \<Rightarrow> if c \<noteq> [] then [(''category'', PStr c)] else [])) (docs st) =
        filter (selected categ) (docs st)"
    by (rule filter_cong) (auto simp: selected_def split: option.splits)
  then show ?thesis
    using assms by (simp add: list_products_def get_documents_def Let_def split: option.splits)
qed

lemma list_products_down:
  assumes "fault st = Some m"
  shows "list_products P (Some st) limit categ = Inl (PyMongoError m)"
  using assms by (simp add: list_products_def get_documents_def)

text \<open>
  C2, as stated, fails for the empty string: \<^verbatim>\<open>list(category="")\<close> applies no filter and
  returns a record whose category is \<^verbatim>\<open>Cards\<close>.
\<close>

theorem list_products_empty_category:
  "list_products strict_lib (Some cards_store) None (Some '''') = Inr [out_card] \<and>
   category out_card \<noteq> ''''"
  by (simp add: list_products_def get_documents_def cards_store_def doc_card_def out_card_def
      eval_defs strict_lib_def ProductCreate.extend_def ProductOut.fields_def)

text \<open>
  C2, amended: for every non-empty category string \<open>C\<close>, on a working store, listing with
  that category and no limit maps exactly the documents whose stored category equals
  \<open>C\<close>: every output has category \<open>C\<close>, the result is the empty list when no document
  has it, and the call returns, one output per such document, when those documents are
  readable. The empty string is no category: the call is the one without a category.
\<close>

theorem list_products_category:
  assumes "C \<noteq> []" and "fault st = None"
  shows "list_products P (Some st) None (Some C) =
           map_exc (product_doc_to_out P)
             (filter (\<lambda>d. map_of d ''category'' = Some (PStr C)) (docs st)) \<and>
         (\<forall>outs. list_products P (Some st) None (Some C) = Inr outs \<longrightarrow>
            (\<forall>out\<in>set outs. category out = C)) \<and>
         ((\<forall>d\<in>set (docs st). map_of d ''category'' \<noteq> Some (PStr C)) \<longrightarrow>
            list_products P (Some st) None (Some C) = Inr []) \<and>
         ((\<forall>d\<in>set (docs st). map_of d ''category'' = Some (PStr C) \<longrightarrow> readable_doc P d) \<longrightarrow>
            (\<exists>outs. list_products P (Some st) None (Some C) = Inr outs \<and>
               length outs =
                 length (filter (\<lambda>d. map_of d ''category'' = Some (PStr C)) (docs st)))) \<and>
         list_products P (Some st) None (Some []) = list_products P (Some st) None None"
proof -
  let ?ms = "filter (\<lambda>d. map_of d ''category'' = Some (PStr C)) (docs st)"
  have emp: "list_products P (Some st) None (Some []) = list_products P (Some st) None None"
    by (simp add: list_products_def)
  have sel: "selected (Some C) = (\<lambda>d. map_of d ''category'' = Some (PStr C))"
    using assms(1) by (simp add: selected_def fun_eq_iff)
  have eq: "list_products P (Some st) None (Some C) = map_exc (product_doc_to_out P) ?ms"
    using list_products_eq [OF assms(2), of P None "Some C"] by (simp add: sel)
  have cat: "\<forall>out\<in>set outs. category out = C"
    if "list_products P (Some st) None (Some C) = Inr outs" for outs
  proof
    fix out assume o: "out \<in> set outs"
    from that have "map_exc (product_doc_to_out P) ?ms = Inr outs"
      by (simp add: eq)
    from map_exc_set [OF this o]
    obtain d where d: "d \<in> set ?ms" and r: "product_doc_to_out P d = Inr out"
      by blast
    from r have "dict_get d ''category'' = PStr (category out)"
      by (simp add: product_doc_to_out_Inr)
    moreover from d have "dict_get d ''category'' = PStr C"
      by (simp add: dict_get_def)
    ultimately show "category out = C" by simp
  qed
  have none: "list_products P (Some st) None (Some C) = Inr []"
    if "\<forall>d\<in>set (docs st). map_of d ''category'' \<noteq> Some (PStr C)"
  proof -
    from that have "?ms = []" by (simp add: filter_empty_conv)
    then show ?thesis by (simp add: eq)
  qed
  have tot: "\<exists>outs. list_products P (Some st) None (Some C) = Inr outs \<and> length outs = length ?ms"
    if "\<forall>d\<in>set (docs st). map_of d ''category'' = Some (PStr C) \<longrightarrow> readable_doc P d"
  proof -
    from that have "\<forall>d\<in>set ?ms. \<exists>y. product_doc_to_out P d = Inr y"
      using readable_doc_out by auto
    then obtain outs where "map_exc (product_doc_to_out P) ?ms = Inr outs"
      using map_exc_total by blast
    then show ?thesis by (auto simp: eq dest: map_exc_length)
  qed
  from eq cat none tot emp show ?thesis by blast
qed


text \<open>C2, amended, on a store of one card: category \<^verbatim>\<open>Cards\<close>, and a category without match.\<close>

theorem list_products_category_witness:
  "''Cards'' \<noteq> [] \<and> fault cards_store = None \<and>
   list_products strict_lib (Some cards_store) None (Some ''Cards'') = Inr [out_card] \<and>
   category out_card = ''Cards'' \<and>
   list_products strict_lib (Some cards_store) None (Some ''Toys'') = Inr []"
proof -
  have f: "fault cards_store = None"
    by (simp add: cards_store_def)
  have a: "''Cards'' \<noteq> []" and b: "''Toys'' \<noteq> []"
    by simp_all
  have o: "product_doc_to_out strict_lib doc_card = Inr out_card"
    by (simp add: doc_card_def out_card_def eval_defs strict_lib_def ProductCreate.extend_def
        ProductOut.fields_def)
  have "list_products strict_lib (Some cards_store) None (Some ''Cards'') = Inr [out_card]"
    using list_products_category [OF a f, of strict_lib] o
    by (simp add: cards_store_def doc_card_def)
  moreover have "list_products strict_lib (Some cards_store) None (Some ''Toys'') = Inr []"
    using list_products_category [OF b f, of strict_lib]
    by (simp add: cards_store_def doc_card_def)
  ultimately show ?thesis using f by (simp add: out_card_def)
qed

text \<open>
  C8: for every limit \<open>N \<ge> 0\<close> a returned list has at most \<open>N\<close> outputs; without a limit
  the call maps all the selected documents; on a working store of readable documents both
  calls return, with \<open>min N n\<close> and \<open>n\<close> outputs for \<open>n\<close> selected documents.
\<close>

theorem list_products_limit:
  assumes "0 \<le> N"
  shows "(\<forall>outs. list_products P (Some st) (Some N) categ = Inr outs \<longrightarrow>
            length outs \<le> nat N) \<and>
         (fault st = None \<longrightarrow>
            list_products P (Some st) None categ =
              map_exc (product_doc_to_out P) (filter (selected categ) (docs st))) \<and>
         (fault st = None \<and> (\<forall>d\<in>set (docs st). readable_doc P d) \<longrightarrow>
            (\<exists>outs. list_products P (Some st) (Some N) categ = Inr outs \<and>
               length outs = min (nat N) (length (filter (selected categ) (docs st)))) \<and>
            (\<exists>outs. list_products P (Some st) None categ = Inr outs \<and>
               length outs = length (filter (selected categ) (docs st))))"
proof -
  let ?ms = "filter (selected categ) (docs st)"
  have le: "length outs \<le> nat N" if "list_products P (Some st) (Some N) categ = Inr outs" for outs
  proof (cases "fault st")
    case None
    with that have "map_exc (product_doc_to_out P) (take (nat N) ?ms) = Inr outs"
      by (simp add: list_products_eq)
    then have "length outs = length (take (nat N) ?ms)"
      by (rule map_exc_length)
    then show ?thesis by simp
  next
    case (Some m)
    with that show ?thesis by (simp add: list_products_down)
  qed
  have all: "list_products P (Some st) None categ = map_exc (product_doc_to_out P) ?ms"
    if "fault st = None"
    using that by (simp add: list_products_eq)
  have tot: "(\<exists>outs. list_products P (Some st) (Some N) categ = Inr outs \<and>
               length outs = min (nat N) (length ?ms)) \<and>
            (\<exists>outs. list_products P (Some st) None categ = Inr outs \<and>
               length outs = length ?ms)"
    if f: "fault st = None" and r: "\<forall>d\<in>set (docs st). readable_doc P d"
  proof -
    from r have 1: "\<forall>d\<in>set (take (nat N) ?ms). \<exists>y. product_doc_to_out P d = Inr y"
      using readable_doc_out by (auto dest!: in_set_takeD)
    from r have 2: "\<forall>d\<in>set ?ms. \<exists>y. product_doc_to_out P d = Inr y"
      using readable_doc_out by auto
    from map_exc_total [OF 1] obtain o1
      where o1: "map_exc (product_doc_to_out P) (take (nat N) ?ms) = Inr o1" by blast
    from map_exc_total [OF 2] obtain o2
      where o2: "map_exc (product_doc_to_out P) ?ms = Inr o2" by blast
    have "length o1 = min (nat N) (length ?ms)"
      using map_exc_length [OF o1] by simp
    moreover have "length o2 = length ?ms"
      using map_exc_length [OF o2] by simp
    ultimately show ?thesis
      using o1 o2 f by (simp add: list_products_eq)
  qed
  from le all tot show ?thesis by blast
qed

text \<open>C8 on a store of two documents, with the limit 1 and without a limit.\<close>

theorem list_products_limit_witness:
  "(0::int) \<le> 1 \<and> fault shop_store = None \<and>
   readable_doc strict_lib doc_card \<and> readable_doc strict_lib doc_tag \<and>
   list_products strict_lib (Some shop_store) (Some 1) None = Inr [out_card] \<and>
   list_products strict_lib (Some shop_store) None None = Inr [out_card, out_tag]"
proof -
  have h: "(0::int) \<le> 1" by simp
  have f: "fault shop_store = None"
    by (simp add: shop_store_def)
  have r: "readable_doc strict_lib doc_card \<and> readable_doc strict_lib doc_tag"
    by (simp add: doc_card_def doc_tag_def readable_doc_def dict_get_def
        dict_get_default_def is_text_def is_optional_text_def float_within_def)
  have o: "product_doc_to_out strict_lib doc_card = Inr out_card"
    by (simp add: doc_card_def out_card_def eval_defs strict_lib_def ProductCreate.extend_def
        ProductOut.fields_def)
  have t: "product_doc_to_out strict_lib doc_tag = Inr out_tag"
    by (simp add: doc_tag_def out_tag_def eval_defs strict_lib_def ProductCreate.extend_def
        ProductOut.fields_def)
  have 1: "list_products strict_lib (Some shop_store) (Some 1) None = Inr [out_card]"
    using o by (simp add: list_products_def get_documents_def shop_store_def)
  have a: "list_products strict_lib (Some shop_store) None None = Inr [out_card, out_tag]"
    using list_products_limit [OF h, of strict_lib shop_store None] f o t
    by (simp add: shop_store_def selected_def)
  from h f r 1 a show ?thesis by blast
qed

subsection \<open>Create product\<close>

lemma canonical_ObjectId_new:
  assumes "canonical oid"
  shows "ObjectId_new (py_str P (POid oid)) = Inr oid"
proof (cases oid)
  case (ObjectId h)
  with assms have l: "length h = 24" and a: "list_all is_lower_hex_digit h"
    by simp_all
  from a l have "fromhex h = Some h"
    by (simp add: fromhex_lower)
  with l ObjectId show ?thesis
    by (simp add: ObjectId_new_def)
qed

lemma find_new:
  assumes "\<not> list_ex (\<lambda>x. map_of x ''_id'' = Some v) ds"
  shows "List.find (matches [(''_id'', v)]) (ds @ [(''_id'', v) # d]) = Some ((''_id'', v) # d)"
  using assms by (induction ds) (simp_all add: matches_def)

lemma validated_price: "ProductCreate_validate P body = Inr pc \<Longrightarrow> 0 \<le> price pc"
  by (auto simp: ProductCreate_validate_Inr f_price_def required_def val_float_ge_def
      split: option.splits if_splits)

lemma validated_rating:
  "ProductCreate_validate P body = Inr pc \<Longrightarrow> rating pc = Some r \<Longrightarrow> 0 \<le> r \<and> r \<le> 5"
  by (auto simp: ProductCreate_validate_Inr f_rating_def with_default_def val_optional_def
      val_float_ge_le_def split: option.splits if_splits)

lemma validated_defaults:
  assumes "ProductCreate_validate P body = Inr pc"
  shows "map_of body ''in_stock'' = None \<longrightarrow> in_stock pc = True"
    and "map_of body ''rating'' = None \<longrightarrow> rating pc = Some 4.5"
    and "map_of body ''title'' = Some (PStr (title pc))"
    and "map_of body ''category'' = Some (PStr (category pc))"
    and "\<forall>f. map_of body ''price'' = Some (PFloat f) \<longrightarrow> price pc = f"
  using assms
  by (auto simp: ProductCreate_validate_Inr f_in_stock_def f_rating_def f_title_def
      f_category_def f_price_def val_float_ge_def with_default_def required_def val_str_Some
      split: option.splits if_splits)

lemma create_product_valid:
  assumes "ProductCreate_validate P body = Inr pc" and "fault st = None"
    and "next_oid_fresh st"
  shows "create_product P (Some st) body =
     (Inr (py_str P (POid (oid_supply st (issued st)))),
      Some (st\<lparr>docs := docs st @ [(''_id'', POid (oid_supply st (issued st))) # model_dump pc],
               issued := Suc (issued st)\<rparr>))"
  using assms
  by (simp add: create_product_def create_document_def insert_one_def next_oid_fresh_def Let_def)

lemma stored_product_out:
  assumes "ProductCreate_validate P body = Inr pc"
  shows "product_doc_to_out P ((''_id'', POid oid) # model_dump pc) =
           Inr (ProductCreate.extend pc (ProductOut.fields (py_str P (POid oid))))"
proof -
  have p: "0 \<le> price pc"
    using assms by (rule validated_price)
  have r: "0 \<le> x \<and> x \<le> 5" if "rating pc = Some x" for x
    using assms that by (rule validated_rating)
  show ?thesis
    unfolding product_doc_to_out_Inr
    using p r
    by (cases "rating pc")
       (simp_all add: model_dump_def dict_get_def dict_get_default_def opt_float_def
          ProductCreate.extend_def ProductOut.fields_def)
qed

text \<open>
  C3: for every body that validates as a payload, on a working store whose driver issues
  a well-formed identifier that is not yet stored, \<^verbatim>\<open>create_product\<close> returns the new
  identifier and \<^verbatim>\<open>get_product\<close> on it returns the payload's seven fields with that
  identifier; in the payload \<^verbatim>\<open>in_stock\<close> is true and the rating 4.5 when the body
  has no such field, and the title, the category and a float price are the body's.
\<close>

theorem create_then_get:
  assumes "ProductCreate_validate P body = Inr pc" and "fault st = None"
    and "canonical (oid_supply st (issued st))" and "next_oid_fresh st"
  shows "\<exists>pid st'. create_product P (Some st) body = (Inr pid, Some st') \<and>
           get_product P (Some st') pid = Inr (ProductCreate.extend pc (ProductOut.fields pid)) \<and>
           map_of body ''title'' = Some (PStr (title pc)) \<and>
           map_of body ''category'' = Some (PStr (category pc)) \<and>
           (\<forall>f. map_of body ''price'' = Some (PFloat f) \<longrightarrow> price pc = f) \<and>
           (map_of body ''in_stock'' = None \<longrightarrow> in_stock pc = True) \<and>
           (map_of body ''rating'' = None \<longrightarrow> rating pc = Some 4.5)"
proof -
  let ?oid = "oid_supply st (issued st)"
  let ?pid = "py_str P (POid ?oid)"
  let ?d = "(''_id'', POid ?oid) # model_dump pc"
  let ?st' = "st\<lparr>docs := docs st @ [?d], issued := Suc (issued st)\<rparr>"
  have c: "create_product P (Some st) body = (Inr ?pid, Some ?st')"
    using assms(1,2,4) by (rule create_product_valid)
  have f: "find_one ?st' [(''_id'', POid ?oid)] = Inr (Some ?d)"
    using assms(2,4) by (simp add: find_one_def find_new next_oid_fresh_def)
  have g: "get_product P (Some ?st') ?pid = product_doc_to_out P ?d"
    using f by (simp add: get_product_def canonical_ObjectId_new [OF assms(3)])
  have o: "get_product P (Some ?st') ?pid = Inr (ProductCreate.extend pc (ProductOut.fields ?pid))"
    using g stored_product_out [OF assms(1)] by simp
  note v = validated_defaults [OF assms(1)]
  show ?thesis
  proof (intro exI conjI)
    show "create_product P (Some st) body = (Inr ?pid, Some ?st')" by (rule c)
    show "get_product P (Some ?st') ?pid = Inr (ProductCreate.extend pc (ProductOut.fields ?pid))"
      by (rule o)
    show "map_of body ''title'' = Some (PStr (title pc))" by (rule v)
    show "map_of body ''category'' = Some (PStr (category pc))" by (rule v)
    show "\<forall>f. map_of body ''price'' = Some (PFloat f) \<longrightarrow> price pc = f" by (rule v)
    show "map_of body ''in_stock'' = None \<longrightarrow> in_stock pc = True" by (rule v)
    show "map_of body ''rating'' = None \<longrightarrow> rating pc = Some 4.5" by (rule v)
  qed
qed


text \<open>C3 on a body with a title, a price and a category only.\<close>

theorem create_then_get_witness:
  "ProductCreate_validate strict_lib body_min = Inr payload_min \<and>
   fault cards_store = None \<and>
   canonical (oid_supply cards_store (issued cards_store)) \<and>
   next_oid_fresh cards_store \<and>
   fst (create_product strict_lib (Some cards_store) body_min) =
     Inr ''000000000000000000000000'' \<and>
   (\<exists>st'. snd (create_product strict_lib (Some cards_store) body_min) = Some st' \<and>
      get_product strict_lib (Some st') ''000000000000000000000000'' =
        Inr \<lparr>title = ''Gift Card'', description = None, price = 9.99, category = ''Cards'',
             in_stock = True, image_url = None, rating = Some 4.5,
             id' = ''000000000000000000000000''\<rparr>)"
proof -
  have v: "ProductCreate_validate strict_lib body_min = Inr payload_min"
    by (simp add: ProductCreate_validate_def field_defs body_min_def payload_min_def)
  have f: "fault cards_store = None"
    by (simp add: cards_store_def)
  have c: "canonical (oid_supply cards_store (issued cards_store))"
    by (simp add: cards_store_def example_supply_def digit_char_def is_lower_hex_digit_def)
  have n: "next_oid_fresh cards_store"
    by (simp add: next_oid_fresh_def cards_store_def example_supply_def digit_char_def
        doc_card_def)
  have p: "py_str strict_lib (POid (oid_supply cards_store (issued cards_store))) =
             ''000000000000000000000000''"
    by (simp add: cards_store_def example_supply_def digit_char_def)
  from create_then_get [OF v f c n] obtain pid st'
    where 1: "create_product strict_lib (Some cards_store) body_min = (Inr pid, Some st')"
      and 2: "get_product strict_lib (Some st') pid =
                Inr (ProductCreate.extend payload_min (ProductOut.fields pid))"
    by blast
  have "fst (create_product strict_lib (Some cards_store) body_min) =
          Inr ''000000000000000000000000''"
    using v f n p
    by (simp add: create_product_def create_document_def insert_one_def next_oid_fresh_def
        Let_def)
  with 1 have pid: "pid = ''000000000000000000000000''"
    by simp
  have "ProductCreate.extend payload_min (ProductOut.fields pid) =
          \<lparr>title = ''Gift Card'', description = None, price = 9.99, category = ''Cards'',
           in_stock = True, image_url = None, rating = Some 4.5, id' = pid\<rparr>"
    by (simp add: payload_min_def ProductCreate.extend_def ProductOut.fields_def)
  with 1 2 pid v f c n show ?thesis by simp
qed

lemma validate_ok_iff:
  "(\<exists>pc. ProductCreate_validate P body = Inr pc) \<longleftrightarrow> ProductCreate_errors P body = []"
  by (auto simp: ProductCreate_validate_def ProductCreate_errors_def field_error_def
      split: option.splits)

lemma create_product_invalid:
  assumes "ProductCreate_errors P body \<noteq> []"
  shows "create_product P db body = (Inl (ValidationError (ProductCreate_errors P body)), db)"
proof (cases "ProductCreate_validate P body")
  case (Inl e)
  then show ?thesis
    by (simp add: create_product_def ProductCreate_validate_Inl)
next
  case (Inr pc)
  with assms validate_ok_iff [of P body] show ?thesis by blast
qed

lemma create_product_valid_no_validation_error:
  assumes "ProductCreate_validate P body = Inr pc"
  shows "fst (create_product P db body) \<noteq> Inl (ValidationError fs)"
  using assms
  by (auto simp: create_product_def create_document_def insert_one_def Let_def
      split: option.splits prod.splits sum.splits if_splits)

lemma negative_price_rejected:
  "map_of body ''price'' = Some (PInt (- 1)) \<or> map_of body ''price'' = Some (PFloat (- 1)) \<Longrightarrow>
     ''price'' \<in> set (ProductCreate_errors P body)"
  by (auto simp: ProductCreate_errors_def field_error_def f_price_def required_def
      val_float_ge_def)

text \<open>A price too large for a double is rejected.\<close>

lemma huge_price_rejected:
  assumes "map_of body ''price'' = Some (PInt i)" and "2 ^ 1024 \<le> \<bar>i\<bar>"
  shows "''price'' \<in> set (ProductCreate_errors P body)"
  using assms
  by (simp add: ProductCreate_errors_def field_error_def f_price_def required_def
      val_float_ge_def float_of_int_overflow del: power_numeral)

lemma high_rating_rejected:
  "map_of body ''rating'' = Some (PFloat 5.1) \<Longrightarrow>
     ''rating'' \<in> set (ProductCreate_errors P body)"
  by (simp add: ProductCreate_errors_def field_error_def f_rating_def with_default_def
      val_optional_def val_float_ge_le_def)

text \<open>A well-typed body: what each field validates to.\<close>

lemma number_value_val_float: "number_value v = Some p \<Longrightarrow> val_float P v = Some p"
  by (cases v) (simp_all add: number_value_def)

lemma number_value_not_None: "number_value v \<noteq> None \<Longrightarrow> v \<noteq> PNone"
  by (auto simp: number_value_def)

lemma wt_title:
  assumes "well_typed_body body"
  shows "\<exists>t. f_title body = Some t \<and> map_of body ''title'' = Some (PStr t)"
  using assms
  by (auto simp: well_typed_body_def is_text_def dict_get_def f_title_def required_def
      split: option.splits pyval.splits)

lemma wt_category:
  assumes "well_typed_body body"
  shows "\<exists>c. f_category body = Some c \<and> map_of body ''category'' = Some (PStr c)"
  using assms
  by (auto simp: well_typed_body_def is_text_def dict_get_def f_category_def required_def
      split: option.splits pyval.splits)

lemma optional_text_field:
  assumes "is_optional_text (dict_get body k)"
  shows "\<exists>r. with_default None (val_optional val_str) (map_of body k) = Some r \<and>
             dict_get body k = opt_str r"
proof (cases "map_of body k")
  case None
  then show ?thesis
    by (simp add: with_default_def dict_get_def opt_str_def)
next
  case (Some v)
  with assms have "v = PNone \<or> (\<exists>s. v = PStr s)"
    by (auto simp: is_optional_text_def is_text_def dict_get_def split: pyval.splits)
  then obtain r where "v = opt_str r"
    by (auto simp: opt_str_def) (metis option.simps(4), metis option.simps(5))
  with Some show ?thesis
    by (auto simp: with_default_def dict_get_def val_optional_str_Some)
qed

lemma wt_description:
  assumes "well_typed_body body"
  shows "\<exists>r. f_description body = Some r \<and> dict_get body ''description'' = opt_str r"
  using assms optional_text_field [of body "''description''"]
  by (simp add: well_typed_body_def f_description_def)

lemma wt_image_url:
  assumes "well_typed_body body"
  shows "\<exists>r. f_image_url body = Some r \<and> dict_get body ''image_url'' = opt_str r"
  using assms optional_text_field [of body "''image_url''"]
  by (simp add: well_typed_body_def f_image_url_def)

lemma wt_in_stock:
  assumes "well_typed_body body"
  shows "\<exists>s. f_in_stock P body = Some s \<and>
             dict_get_default body ''in_stock'' (PBool True) = PBool s"
  using assms
  by (auto simp: well_typed_body_def is_optional_bool_def f_in_stock_def with_default_def
      dict_get_default_def split: option.splits pyval.splits)

lemma wt_price:
  assumes "well_typed_body body"
  shows "\<exists>p. number_value (dict_get body ''price'') = Some p \<and>
             f_price P body = (if 0 \<le> p then Some p else None)"
proof -
  from assms obtain p where p: "number_value (dict_get body ''price'') = Some p"
    by (auto simp: well_typed_body_def is_number_def split: option.splits)
  then have "dict_get body ''price'' \<noteq> PNone"
    using number_value_not_None by force
  then obtain v where v: "map_of body ''price'' = Some v" and d: "dict_get body ''price'' = v"
    by (auto simp: dict_get_def split: option.splits)
  from p d have "val_float P v = Some p"
    by (simp add: number_value_val_float)
  with v have "f_price P body = (if 0 \<le> p then Some p else None)"
    by (simp add: f_price_def required_def val_float_ge_def)
  with p show ?thesis by blast
qed

lemma wt_rating:
  assumes "well_typed_body body"
  shows "f_rating P body =
           (if map_of body ''rating'' = None then Some (Some 4.5)
            else (case number_value (dict_get body ''rating'') of
                    None \<Rightarrow> Some None
                  | Some r \<Rightarrow> if 0 \<le> r \<and> r \<le> 5 then Some (Some r) else None))"
proof (cases "map_of body ''rating''")
  case None
  then show ?thesis by (simp add: f_rating_def with_default_def)
next
  case (Some v)
  then have d: "dict_get body ''rating'' = v"
    by (simp add: dict_get_def)
  show ?thesis
  proof (cases "v = PNone")
    case True
    with Some d show ?thesis
      by (simp add: f_rating_def with_default_def val_optional_def number_value_def)
  next
    case False
    with assms d obtain r where r: "number_value v = Some r"
      by (auto simp: well_typed_body_def is_number_def split: option.splits)
    then have "val_float P v = Some r"
      by (rule number_value_val_float)
    with Some d False r show ?thesis
      by (simp add: f_rating_def with_default_def val_optional_def val_float_ge_le_def)
  qed
qed

lemma wt_errors:
  assumes "well_typed_body body"
  shows "ProductCreate_errors P body \<noteq> [] \<longleftrightarrow> constraint_violated body"
proof -
  from wt_title [OF assms] obtain t where t: "f_title body = Some t" by blast
  from wt_category [OF assms] obtain c where c: "f_category body = Some c" by blast
  from wt_description [OF assms] obtain de where de: "f_description body = Some de" by blast
  from wt_image_url [OF assms] obtain iu where iu: "f_image_url body = Some iu" by blast
  from wt_in_stock [OF assms, of P] obtain s where s: "f_in_stock P body = Some s" by blast
  from wt_price [OF assms, of P] obtain p
    where p: "number_value (dict_get body ''price'') = Some p"
      and fp: "f_price P body = (if 0 \<le> p then Some p else None)" by blast
  note fr = wt_rating [OF assms, of P]
  have n: "map_of body ''rating'' = None \<Longrightarrow> number_value (dict_get body ''rating'') = None"
    by (simp add: dict_get_def number_value_def)
  show ?thesis
    using n
    by (auto simp: ProductCreate_errors_def field_error_def t c de iu s fp fr p
        constraint_violated_def split: option.splits if_splits)
qed


lemma wt_stored:
  assumes w: "well_typed_body body" and nv: "\<not> constraint_violated body"
    and nr: "map_of body ''rating'' = None"
  shows "\<exists>p pc. number_value (dict_get body ''price'') = Some p \<and>
           ProductCreate_validate P body = Inr pc \<and>
           model_dump pc =
             [(''title'', dict_get body ''title''),
              (''description'', dict_get body ''description''),
              (''price'', PFloat p),
              (''category'', dict_get body ''category''),
              (''in_stock'', dict_get_default body ''in_stock'' (PBool True)),
              (''image_url'', dict_get body ''image_url''),
              (''rating'', PFloat 4.5)]"
proof -
  from wt_title [OF w] obtain t where t: "f_title body = Some t"
    and t': "map_of body ''title'' = Some (PStr t)" by blast
  from wt_category [OF w] obtain c where c: "f_category body = Some c"
    and c': "map_of body ''category'' = Some (PStr c)" by blast
  from wt_description [OF w] obtain de where de: "f_description body = Some de"
    and de': "dict_get body ''description'' = opt_str de" by blast
  from wt_image_url [OF w] obtain iu where iu: "f_image_url body = Some iu"
    and iu': "dict_get body ''image_url'' = opt_str iu" by blast
  from wt_in_stock [OF w, of P] obtain s where s: "f_in_stock P body = Some s"
    and s': "dict_get_default body ''in_stock'' (PBool True) = PBool s" by blast
  from wt_price [OF w, of P] obtain p
    where p: "number_value (dict_get body ''price'') = Some p"
      and fp: "f_price P body = (if 0 \<le> p then Some p else None)" by blast
  from nv p have "0 \<le> p"
    by (simp add: constraint_violated_def)
  with fp have fp': "f_price P body = Some p" by simp
  have fr: "f_rating P body = Some (Some 4.5)"
    using wt_rating [OF w, of P] nr by simp
  define pc where "pc = \<lparr>title = t, description = de, price = p, category = c,
    in_stock = s, image_url = iu, rating = Some 4.5\<rparr>"
  have v: "ProductCreate_validate P body = Inr pc"
    by (simp add: ProductCreate_validate_Inr pc_def t de fp' c s iu fr)
  have "model_dump pc =
             [(''title'', dict_get body ''title''),
              (''description'', dict_get body ''description''),
              (''price'', PFloat p),
              (''category'', dict_get body ''category''),
              (''in_stock'', dict_get_default body ''in_stock'' (PBool True)),
              (''image_url'', dict_get body ''image_url''),
              (''rating'', PFloat 4.5)]"
  proof -
    from t' c' have "dict_get body ''title'' = PStr t" and "dict_get body ''category'' = PStr c"
      by (simp_all add: dict_get_def)
    then show ?thesis
      by (simp add: model_dump_def pc_def de' iu' s' opt_float_def)
  qed
  with p v show ?thesis by blast
qed

text \<open>
  C7: a body whose price is -1 is rejected with a validation error that names
  \<^verbatim>\<open>price\<close>, a body whose rating is 5.1 with one that names \<^verbatim>\<open>rating\<close>, and in both cases
  nothing is stored; a well-typed body that violates no constraint and has no rating is
  stored field for field, with the values of the body, \<^verbatim>\<open>in_stock\<close> true when absent, and
  the rating 4.5; and for a well-typed body \<^verbatim>\<open>create_product\<close> raises a validation error
  exactly when a range constraint is violated: the price is negative, or the rating is
  below 0 or above 5.
\<close>

theorem create_product_validation:
  "(map_of body ''price'' = Some (PInt (- 1)) \<or> map_of body ''price'' = Some (PFloat (- 1)) \<longrightarrow>
      (\<exists>fs. create_product P db body = (Inl (ValidationError fs), db) \<and> ''price'' \<in> set fs)) \<and>
   (map_of body ''rating'' = Some (PFloat 5.1) \<longrightarrow>
      (\<exists>fs. create_product P db body = (Inl (ValidationError fs), db) \<and> ''rating'' \<in> set fs)) \<and>
   (well_typed_body body \<and> \<not> constraint_violated body \<and> map_of body ''rating'' = None \<and>
    fault st = None \<and> next_oid_fresh st \<longrightarrow>
      (\<exists>pid p. number_value (dict_get body ''price'') = Some p \<and>
         create_product P (Some st) body =
           (Inr pid,
            Some (st\<lparr>docs := docs st @
                       [[(''_id'', POid (oid_supply st (issued st))),
                         (''title'', dict_get body ''title''),
                         (''description'', dict_get body ''description''),
                         (''price'', PFloat p),
                         (''category'', dict_get body ''category''),
                         (''in_stock'', dict_get_default body ''in_stock'' (PBool True)),
                         (''image_url'', dict_get body ''image_url''),
                         (''rating'', PFloat 4.5)]],
                     issued := Suc (issued st)\<rparr>)))) \<and>
   (well_typed_body body \<longrightarrow>
      ((\<exists>fs. fst (create_product P db body) = Inl (ValidationError fs)) \<longleftrightarrow>
         constraint_violated body))"
proof (intro conjI impI)
  assume a: "map_of body ''price'' = Some (PInt (- 1)) \<or>
    map_of body ''price'' = Some (PFloat (- 1))"
  from negative_price_rejected [OF a, of P] have "ProductCreate_errors P body \<noteq> []"
    by auto
  from create_product_invalid [OF this] negative_price_rejected [OF a, of P]
  show "\<exists>fs. create_product P db body = (Inl (ValidationError fs), db) \<and> ''price'' \<in> set fs"
    by blast
next
  assume a: "map_of body ''rating'' = Some (PFloat 5.1)"
  from high_rating_rejected [OF a, of P] have "ProductCreate_errors P body \<noteq> []"
    by auto
  from create_product_invalid [OF this] high_rating_rejected [OF a, of P]
  show "\<exists>fs. create_product P db body = (Inl (ValidationError fs), db) \<and> ''rating'' \<in> set fs"
    by blast
next
  assume a: "well_typed_body body \<and> \<not> constraint_violated body \<and>
    map_of body ''rating'' = None \<and> fault st = None \<and> next_oid_fresh st"
  then obtain p pc where p: "number_value (dict_get body ''price'') = Some p"
    and v: "ProductCreate_validate P body = Inr pc"
    and m: "model_dump pc =
             [(''title'', dict_get body ''title''),
              (''description'', dict_get body ''description''),
              (''price'', PFloat p),
              (''category'', dict_get body ''category''),
              (''in_stock'', dict_get_default body ''in_stock'' (PBool True)),
              (''image_url'', dict_get body ''image_url''),
              (''rating'', PFloat 4.5)]"
    using wt_stored [of body P] by blast
  from a have f: "fault st = None" and n: "next_oid_fresh st" by simp_all
  from create_product_valid [OF v f n] m p
  show "\<exists>pid p. number_value (dict_get body ''price'') = Some p \<and>
         create_product P (Some st) body =
           (Inr pid,
            Some (st\<lparr>docs := docs st @
                       [[(''_id'', POid (oid_supply st (issued st))),
                         (''title'', dict_get body ''title''),
                         (''description'', dict_get body ''description''),
                         (''price'', PFloat p),
                         (''category'', dict_get body ''category''),
                         (''in_stock'', dict_get_default body ''in_stock'' (PBool True)),
                         (''image_url'', dict_get body ''image_url''),
                         (''rating'', PFloat 4.5)]],
                     issued := Suc (issued st)\<rparr>))"
    by simp
next
  assume w: "well_typed_body body"
  have "(\<exists>fs. fst (create_product P db body) = Inl (ValidationError fs)) \<longleftrightarrow>
      ProductCreate_errors P body \<noteq> []"
  proof
    assume "\<exists>fs. fst (create_product P db body) = Inl (ValidationError fs)"
    then show "ProductCreate_errors P body \<noteq> []"
      using create_product_valid_no_validation_error validate_ok_iff by metis
  next
    assume "ProductCreate_errors P body \<noteq> []"
    from create_product_invalid [OF this]
    show "\<exists>fs. fst (create_product P db body) = Inl (ValidationError fs)"
      by simp
  qed
  with wt_errors [OF w, of P]
  show "(\<exists>fs. fst (create_product P db body) = Inl (ValidationError fs)) \<longleftrightarrow>
         constraint_violated body"
    by simp
qed


text \<open>C7 on three bodies: price -1, rating 5.1, and no rating.\<close>

theorem create_product_validation_witness:
  "map_of body_negative_price ''price'' = Some (PInt (- 1)) \<and>
   create_product strict_lib (Some cards_store) body_negative_price =
     (Inl (ValidationError [''price'']), Some cards_store) \<and>
   well_typed_body body_negative_price \<and> constraint_violated body_negative_price \<and>
   map_of body_high_rating ''rating'' = Some (PFloat 5.1) \<and>
   create_product strict_lib (Some cards_store) body_high_rating =
     (Inl (ValidationError [''rating'']), Some cards_store) \<and>
   well_typed_body body_min \<and> \<not> constraint_violated body_min \<and>
   map_of body_min ''rating'' = None \<and> fault cards_store = None \<and>
   next_oid_fresh cards_store \<and>
   (\<exists>pid. create_product strict_lib (Some cards_store) body_min =
      (Inr pid,
       Some (cards_store\<lparr>docs := docs cards_store @
               [[(''_id'', POid (oid_supply cards_store (issued cards_store))),
                 (''title'', PStr ''Gift Card''), (''description'', PNone),
                 (''price'', PFloat 9.99), (''category'', PStr ''Cards''),
                 (''in_stock'', PBool True), (''image_url'', PNone),
                 (''rating'', PFloat 4.5)]],
             issued := Suc (issued cards_store)\<rparr>)))"
proof -
  have a: "map_of body_negative_price ''price'' = Some (PInt (- 1))"
    by (simp add: body_negative_price_def)
  have b: "map_of body_high_rating ''rating'' = Some (PFloat 5.1)"
    by (simp add: body_high_rating_def)
  have wa: "well_typed_body body_negative_price"
    by (simp add: well_typed_body_def body_negative_price_def dict_get_def is_text_def
        is_optional_text_def is_number_def number_value_def is_optional_bool_def)
  have va: "constraint_violated body_negative_price"
    by (simp add: constraint_violated_def body_negative_price_def dict_get_def
        number_value_def)
  from create_product_validation [of body_negative_price strict_lib "Some cards_store"]
    wa va
  have ea: "\<exists>fs. fst (create_product strict_lib (Some cards_store) body_negative_price) =
              Inl (ValidationError fs)"
    by blast
  have ca: "create_product strict_lib (Some cards_store) body_negative_price =
     (Inl (ValidationError [''price'']), Some cards_store)"
    by (simp add: create_product_def ProductCreate_validate_def ProductCreate_errors_def
        field_error_def field_defs body_negative_price_def)
  have cb: "create_product strict_lib (Some cards_store) body_high_rating =
     (Inl (ValidationError [''rating'']), Some cards_store)"
    by (simp add: create_product_def ProductCreate_validate_def ProductCreate_errors_def
        field_error_def field_defs body_high_rating_def)
  have w: "well_typed_body body_min"
    by (simp add: well_typed_body_def body_min_def dict_get_def is_text_def
        is_optional_text_def is_number_def number_value_def is_optional_bool_def)
  have nv: "\<not> constraint_violated body_min"
    by (simp add: constraint_violated_def body_min_def dict_get_def number_value_def)
  have r: "map_of body_min ''rating'' = None"
    by (simp add: body_min_def)
  have f: "fault cards_store = None"
    by (simp add: cards_store_def)
  have n: "next_oid_fresh cards_store"
    by (simp add: next_oid_fresh_def cards_store_def example_supply_def digit_char_def
        doc_card_def)
  from create_product_validation [of body_min strict_lib "Some cards_store" cards_store]
    w nv r f n
  obtain pid p where p: "number_value (dict_get body_min ''price'') = Some p"
    and c: "create_product strict_lib (Some cards_store) body_min =
           (Inr pid,
            Some (cards_store\<lparr>docs := docs cards_store @
                       [[(''_id'', POid (oid_supply cards_store (issued cards_store))),
                         (''title'', dict_get body_min ''title''),
                         (''description'', dict_get body_min ''description''),
                         (''price'', PFloat p),
                         (''category'', dict_get body_min ''category''),
                         (''in_stock'', dict_get_default body_min ''in_stock'' (PBool True)),
                         (''image_url'', dict_get body_min ''image_url''),
                         (''rating'', PFloat 4.5)]],
                     issued := Suc (issued cards_store)\<rparr>))"
    by blast
  from p have "p = 9.99"
    by (simp add: body_min_def dict_get_def number_value_def)
  with c have "\<exists>pid. create_product strict_lib (Some cards_store) body_min =
      (Inr pid,
       Some (cards_store\<lparr>docs := docs cards_store @
               [[(''_id'', POid (oid_supply cards_store (issued cards_store))),
                 (''title'', PStr ''Gift Card''), (''description'', PNone),
                 (''price'', PFloat 9.99), (''category'', PStr ''Cards''),
                 (''in_stock'', PBool True), (''image_url'', PNone),
                 (''rating'', PFloat 4.5)]],
             issued := Suc (issued cards_store)\<rparr>))"
    by (simp add: body_min_def dict_get_def dict_get_default_def)
  with a b wa va ca cb w nv r f n show ?thesis by blast
qed

end
